theory Spec2Isabelle
  imports Main "HOL-Library.Signed_Division"
begin

text \<open>
  A model of the date-operations server: the holiday cache with its two external
  sources (bankHolidays.ts), the working-day calculator and the sprint calculator
  (dateCalculations.ts), and the due-date policy (asanaHelpers.ts), with the properties
  its specification states about them. An \<open>async\<close> function is a function from the
  state of the program to its result and the state it leaves; a result is a value or
  the exception raised; the clock and the network are oracles of the environment,
  indexed by how often they have been consulted.
\<close>

section \<open>Dates\<close>

text \<open>
  A JavaScript \<open>Date\<close> is its time value: a whole number of milliseconds since the
  epoch, at most 8.64e15 in absolute value, or NaN, the invalid date. \<open>TimeClip\<close> makes
  a date of a number. A number that may be NaN is an \<open>int option\<close>, \<open>None\<close> for NaN.
\<close>

datatype date = InvalidDate | Date int

definition msPerDay :: int where
  "msPerDay = 24 * 60 * 60 * 1000"

definition maxTime :: int where
  "maxTime = 8640000000000000"

definition TimeClip :: "int \<Rightarrow> date" where
  "TimeClip t = (if \<bar>t\<bar> \<le> maxTime then Date t else InvalidDate)"

text \<open>The comparisons \<open>a > b\<close> and \<open>a <= b\<close> of two dates: false when one is invalid.\<close>

definition dateGreater :: "date \<Rightarrow> date \<Rightarrow> bool" where
  "dateGreater a b = (case (a, b) of (Date x, Date y) \<Rightarrow> x > y | _ \<Rightarrow> False)"

definition dateLessEq :: "date \<Rightarrow> date \<Rightarrow> bool" where
  "dateLessEq a b = (case (a, b) of (Date x, Date y) \<Rightarrow> x \<le> y | _ \<Rightarrow> False)"

section \<open>The environment: zones, clock and holiday sources\<close>

text \<open>Exceptions raised in the program or in the libraries it calls.\<close>

datatype exn =
    FetchError    \<comment> \<open>the \<open>fetch\<close> promise rejects: network failure\<close>
  | SyntaxError   \<comment> \<open>\<open>response.json()\<close> rejects: the body is not JSON\<close>
  | TypeError     \<comment> \<open>the JSON has not the expected shape: a property of undefined is read\<close>
  | RangeError    \<comment> \<open>date-fns \<open>format\<close> is given an invalid date\<close>

datatype 'a body = Unparseable | Malformed | Parsed 'a

record 'a response =
  ok :: bool
  status :: int
  json :: "'a body"

datatype 'a outcome = Rejected | Resolved "'a response"

text \<open>An event of the GOV.UK source and a holiday of the Nager.Date source.\<close>

record uk_event =
  ev_title :: string
  ev_date :: string
  ev_notes :: string
  ev_bunting :: bool

record BankHoliday =
  bh_date :: string
  bh_localName :: string
  bh_name :: string

text \<open>
  Everything outside the program. \<open>localTZA\<close> is the zone of the running process, as
  ECMAScript gives it: \<open>localTZA t True\<close> is the offset from UTC, in milliseconds, at the
  instant \<open>t\<close>, and \<open>localTZA t False\<close> is the offset with which the local time value \<open>t\<close>
  is read (at a clock change a local time is skipped or occurs twice, and the
  implementation picks). \<open>zoneOffset tz t\<close> is the offset of the named zone at the
  instant \<open>t\<close> (the time zone database used by date-fns-tz). \<open>nowAt k\<close> is what the
  \<open>k\<close>-th reading of the clock returns (\<open>Date.now()\<close>, \<open>new Date()\<close>), a time value.
  \<open>ukSource k\<close> and \<open>nagerSource k year country\<close> are the outcome of the \<open>k\<close>-th HTTP
  request when it goes to the one or the other source.
\<close>

record world =
  localTZA :: "int \<Rightarrow> bool \<Rightarrow> int"
  zoneOffset :: "string \<Rightarrow> int \<Rightarrow> int"
  nowAt :: "nat \<Rightarrow> int"
  ukSource :: "nat \<Rightarrow> uk_event list outcome"
  nagerSource :: "nat \<Rightarrow> int \<Rightarrow> string \<Rightarrow> BankHoliday list outcome"

section \<open>Calendar fields of a date (the methods of \<open>Date\<close> and date-fns)\<close>

text \<open>
  ECMAScript's \<open>LocalTime\<close> and \<open>UTC\<close>. The getters of \<open>Date\<close> read the fields of the
  local time of the time value; a setter computes a new local time value and stores
  \<open>TimeClip (UTC l)\<close>. The functions of date-fns and date-fns-tz are modelled after
  their sources, which call these getters and setters.
\<close>

definition LocalTime :: "world \<Rightarrow> int \<Rightarrow> int" where
  "LocalTime w t = t + localTZA w t True"

definition UTC :: "world \<Rightarrow> int \<Rightarrow> int" where
  "UTC w t = t - localTZA w t False"

definition setLocal :: "world \<Rightarrow> int \<Rightarrow> date" where
  "setLocal w l = TimeClip (UTC w l)"

text \<open>The day number and the time within the day of the local time of a time value.\<close>

definition localDay :: "world \<Rightarrow> int \<Rightarrow> int" where
  "localDay w t = LocalTime w t div msPerDay"

definition timeOfDay :: "world \<Rightarrow> int \<Rightarrow> int" where
  "timeOfDay w t = LocalTime w t mod msPerDay"

text \<open>Day of the week, 0 for Sunday; 1 January 1970 was a Thursday.\<close>

definition weekdayOfDay :: "int \<Rightarrow> int" where
  "weekdayOfDay n = (n + 4) mod 7"

definition getDay :: "world \<Rightarrow> date \<Rightarrow> int option" where
  "getDay w d = (case d of InvalidDate \<Rightarrow> None | Date t \<Rightarrow> Some (weekdayOfDay (localDay w t)))"

definition isWeekend :: "world \<Rightarrow> date \<Rightarrow> bool" where
  "isWeekend w d = (getDay w d = Some 0 \<or> getDay w d = Some 6)"

text \<open>
  date-fns \<open>addDays\<close>: the date itself for the amount 0, and otherwise
  \<open>date.setDate(date.getDate() + amount)\<close>, which moves the local time by whole days.
\<close>

definition addDays :: "world \<Rightarrow> date \<Rightarrow> int \<Rightarrow> date" where
  "addDays w d amount =
     (if amount = 0 then d
      else case d of
             InvalidDate \<Rightarrow> InvalidDate
           | Date t \<Rightarrow> setLocal w (LocalTime w t + amount * msPerDay))"

definition subDays :: "world \<Rightarrow> date \<Rightarrow> int \<Rightarrow> date" where
  "subDays w d amount = addDays w d (- amount)"

definition getHours :: "world \<Rightarrow> date \<Rightarrow> int option" where
  "getHours w d = (case d of InvalidDate \<Rightarrow> None | Date t \<Rightarrow> Some (timeOfDay w t div 3600000))"

definition getMinutes :: "world \<Rightarrow> date \<Rightarrow> int option" where
  "getMinutes w d =
     (case d of InvalidDate \<Rightarrow> None | Date t \<Rightarrow> Some ((timeOfDay w t mod 3600000) div 60000))"

definition getSeconds :: "world \<Rightarrow> date \<Rightarrow> int option" where
  "getSeconds w d =
     (case d of InvalidDate \<Rightarrow> None | Date t \<Rightarrow> Some ((timeOfDay w t mod 60000) div 1000))"

definition getMilliseconds :: "world \<Rightarrow> date \<Rightarrow> int option" where
  "getMilliseconds w d = (case d of InvalidDate \<Rightarrow> None | Date t \<Rightarrow> Some (timeOfDay w t mod 1000))"

definition setHours :: "world \<Rightarrow> date \<Rightarrow> int \<Rightarrow> date" where
  "setHours w d h =
     (case d of
        InvalidDate \<Rightarrow> InvalidDate
      | Date t \<Rightarrow> setLocal w (LocalTime w t - timeOfDay w t div 3600000 * 3600000 + h * 3600000))"

definition setMinutes :: "world \<Rightarrow> date \<Rightarrow> int \<Rightarrow> date" where
  "setMinutes w d m =
     (case d of
        InvalidDate \<Rightarrow> InvalidDate
      | Date t \<Rightarrow>
          setLocal w (LocalTime w t - timeOfDay w t mod 3600000 div 60000 * 60000 + m * 60000))"

definition setSeconds :: "world \<Rightarrow> date \<Rightarrow> int \<Rightarrow> date" where
  "setSeconds w d sec =
     (case d of
        InvalidDate \<Rightarrow> InvalidDate
      | Date t \<Rightarrow> setLocal w (LocalTime w t - timeOfDay w t mod 60000 div 1000 * 1000 + sec * 1000))"

definition setMilliseconds :: "world \<Rightarrow> date \<Rightarrow> int \<Rightarrow> date" where
  "setMilliseconds w d ms =
     (case d of
        InvalidDate \<Rightarrow> InvalidDate
      | Date t \<Rightarrow> setLocal w (LocalTime w t - timeOfDay w t mod 1000 + ms))"

text \<open>date-fns \<open>startOfDay\<close>: \<open>date.setHours(0, 0, 0, 0)\<close>.\<close>

definition startOfDay :: "world \<Rightarrow> date \<Rightarrow> date" where
  "startOfDay w d =
     (case d of InvalidDate \<Rightarrow> InvalidDate | Date t \<Rightarrow> setLocal w (localDay w t * msPerDay))"

text \<open>
  date-fns \<open>differenceInDays\<close>, the number of full days between two dates, with its
  helpers: \<open>compareLocalAsc\<close> compares the local fields of two dates,
  \<open>differenceInCalendarDays\<close> rounds the distance of the two starts of day, in local
  time, to whole days (\<open>Math.round\<close> rounds halves up).
\<close>

definition compareLocalAsc :: "world \<Rightarrow> date \<Rightarrow> date \<Rightarrow> int option" where
  "compareLocalAsc w dateLeft dateRight =
     (case (dateLeft, dateRight) of
        (Date a, Date b) \<Rightarrow> Some (sgn (LocalTime w a - LocalTime w b))
      | _ \<Rightarrow> None)"

definition differenceInCalendarDays :: "world \<Rightarrow> date \<Rightarrow> date \<Rightarrow> int option" where
  "differenceInCalendarDays w dateLeft dateRight =
     (case (startOfDay w dateLeft, startOfDay w dateRight) of
        (Date a, Date b) \<Rightarrow>
          Some ((2 * (LocalTime w a - LocalTime w b) + msPerDay) div (2 * msPerDay))
      | _ \<Rightarrow> None)"

definition differenceInDays :: "world \<Rightarrow> date \<Rightarrow> date \<Rightarrow> int option" where
  "differenceInDays w dateLeft dateRight =
     (case (dateLeft, compareLocalAsc w dateLeft dateRight,
            differenceInCalendarDays w dateLeft dateRight) of
        (Date a, Some sign, Some days) \<Rightarrow>
          (let difference = \<bar>days\<bar>;
               dateLeft' = setLocal w (LocalTime w a - sign * difference * msPerDay);
               isLastDayNotFull =
                 (if compareLocalAsc w dateLeft' dateRight = Some (- sign) then 1 else 0)
           in Some (sign * (difference - isLastDayNotFull)))
      | _ \<Rightarrow> None)"

text \<open>
  The proleptic Gregorian date (year, month 1..12, day of month) of a day number
  counted from 1 January 1970.
\<close>

definition civilFromDays :: "int \<Rightarrow> int \<times> int \<times> int" where
  "civilFromDays n =
     (let z = n + 719468;
          era = z div 146097;
          doe = z - era * 146097;
          yoe = (doe - doe div 1460 + doe div 36524 - doe div 146096) div 365;
          doy = doe - (365 * yoe + yoe div 4 - yoe div 100);
          mp = (5 * doy + 2) div 153;
          dd = doy - (153 * mp + 2) div 5 + 1;
          mm = (if mp < 10 then mp + 3 else mp - 9)
      in (yoe + era * 400 + (if mm \<le> 2 then 1 else 0), mm, dd))"

text \<open>\<open>getFullYear\<close> of the valid date with the given time value.\<close>

definition getFullYear :: "world \<Rightarrow> int \<Rightarrow> int" where
  "getFullYear w t = fst (civilFromDays (localDay w t))"

fun digits :: "nat \<Rightarrow> string" where
  "digits n =
     (if n < 10 then [''0123456789'' ! n]
      else digits (n div 10) @ [''0123456789'' ! (n mod 10)])"

declare digits.simps [simp del]

definition addLeadingZeros :: "int \<Rightarrow> nat \<Rightarrow> string" where
  "addLeadingZeros n targetLength =
     (let out = digits (nat \<bar>n\<bar>)
      in (if n < 0 then ''-'' else '''') @ replicate (targetLength - length out) CHR ''0'' @ out)"

text \<open>
  The pattern \<open>yyyy-MM-dd\<close> of date-fns applied to a day number: the year of the era
  (year 0 is 1 BC), month and day, each padded with zeros.
\<close>

definition formatDay :: "int \<Rightarrow> string" where
  "formatDay n =
     (case civilFromDays n of (y, m, d) \<Rightarrow>
        addLeadingZeros (if y > 0 then y else 1 - y) 4 @ ''-'' @
        addLeadingZeros m 2 @ ''-'' @ addLeadingZeros d 2)"

text \<open>
  \<open>format(date, 'yyyy-MM-dd')\<close>: the calendar date in the zone of the process; an
  invalid date raises \<open>RangeError\<close>.
\<close>

definition format_yyyy_MM_dd :: "world \<Rightarrow> date \<Rightarrow> exn + string" where
  "format_yyyy_MM_dd w d =
     (case d of InvalidDate \<Rightarrow> Inl RangeError | Date t \<Rightarrow> Inr (formatDay (localDay w t)))"

text \<open>
  date-fns-tz. \<open>utcToZonedTime\<close> makes the date whose fields in the zone of the process
  are the wall clock of the named zone at the given instant: it reads them as the UTC
  fields of the date moved by the offset of the zone and sets them on \<open>new Date(0)\<close>,
  first year, month and day, then the time. \<open>formatInTimeZone\<close> formats that date.
  \<open>zonedDay\<close> and \<open>zonedHours\<close> are the day number and the hour of the wall clock of the
  named zone at an instant.
\<close>

definition utcToZonedTime :: "world \<Rightarrow> date \<Rightarrow> string \<Rightarrow> date" where
  "utcToZonedTime w d tz =
     (case d of
        InvalidDate \<Rightarrow> InvalidDate
      | Date t \<Rightarrow>
          (case TimeClip (t + zoneOffset w tz t) of
             InvalidDate \<Rightarrow> InvalidDate
           | Date z \<Rightarrow>
               (case setLocal w (z div msPerDay * msPerDay + timeOfDay w 0) of
                  InvalidDate \<Rightarrow> InvalidDate
                | Date t1 \<Rightarrow> setLocal w (localDay w t1 * msPerDay + z mod msPerDay))))"

definition zonedDay :: "world \<Rightarrow> string \<Rightarrow> int \<Rightarrow> int" where
  "zonedDay w tz t = (t + zoneOffset w tz t) div msPerDay"

definition formatInTimeZone_yyyy_MM_dd :: "world \<Rightarrow> date \<Rightarrow> string \<Rightarrow> exn + string" where
  "formatInTimeZone_yyyy_MM_dd w d tz = format_yyyy_MM_dd w (utcToZonedTime w d tz)"

definition zonedHours :: "world \<Rightarrow> string \<Rightarrow> int \<Rightarrow> int" where
  "zonedHours w tz t = ((t + zoneOffset w tz t) mod msPerDay) div 3600000"

section \<open>Configuration (config.ts)\<close>

record Config =
  timezone :: string
  asanaDueHour :: int
  bankHolidayCountry :: string
  enableBankHolidays :: bool

section \<open>The holiday cache (bankHolidays.ts)\<close>

text \<open>
  The module variables \<open>cachedHolidays\<close>, \<open>cacheExpiry\<close> and \<open>cachedCountry\<close>, with three
  counters of what the program has done to its environment so far: clock readings, HTTP
  requests, and calls of an external fetch operation (\<open>fetchUKBankHolidays\<close> or
  \<open>fetchNagerDateHolidays\<close>; the latter issues up to two requests, one per year).
  A \<open>Set<string>\<close> is the list of its members in insertion order.
\<close>

record state =
  cachedHolidays :: "string list option"
  cacheExpiry :: int
  cachedCountry :: "string option"
  clockReads :: nat
  requests :: nat
  fetches :: nat

definition initialState :: state where
  "initialState = \<lparr>cachedHolidays = None, cacheExpiry = 0, cachedCountry = None,
     clockReads = 0, requests = 0, fetches = 0\<rparr>"

definition setAdd :: "string list \<Rightarrow> string \<Rightarrow> string list" where
  "setAdd xs x = (if x \<in> set xs then xs else xs @ [x])"

text \<open>The body of the \<open>try\<close> block of \<open>fetchUKBankHolidays\<close>.\<close>

definition fetchUKBankHolidays_try :: "world \<Rightarrow> state \<Rightarrow> (exn + string list) \<times> state" where
  "fetchUKBankHolidays_try w s =
     (let s1 = s\<lparr>requests := Suc (requests s)\<rparr> in
      case ukSource w (requests s) of
        Rejected \<Rightarrow> (Inl FetchError, s1)
      | Resolved r \<Rightarrow>
          (case json r of
             Unparseable \<Rightarrow> (Inl SyntaxError, s1)
           | Malformed \<Rightarrow> (Inl TypeError, s1)
           | Parsed events \<Rightarrow> (Inr (foldl setAdd [] (map ev_date events)), s1)))"

definition fetchUKBankHolidays :: "world \<Rightarrow> state \<Rightarrow> string list \<times> state" where
  "fetchUKBankHolidays w s =
     (case fetchUKBankHolidays_try w (s\<lparr>fetches := Suc (fetches s)\<rparr>) of
        (Inr holidays, s') \<Rightarrow> (holidays, s')
      | (Inl error, s') \<Rightarrow> ([], s'))"

text \<open>The \<open>for\<close> loop of \<open>fetchNagerDateHolidays\<close> over the years still to fetch.\<close>

fun fetchNagerDateHolidays_years ::
  "world \<Rightarrow> string \<Rightarrow> int list \<Rightarrow> string list \<Rightarrow> state \<Rightarrow> (exn + string list) \<times> state" where
  "fetchNagerDateHolidays_years w countryCode [] holidays s = (Inr holidays, s)"
| "fetchNagerDateHolidays_years w countryCode (year # years) holidays s =
     (let s1 = s\<lparr>requests := Suc (requests s)\<rparr> in
      case nagerSource w (requests s) year countryCode of
        Rejected \<Rightarrow> (Inl FetchError, s1)
      | Resolved r \<Rightarrow>
          if \<not> ok r then fetchNagerDateHolidays_years w countryCode years holidays s1
          else
            (case json r of
               Unparseable \<Rightarrow> (Inl SyntaxError, s1)
             | Malformed \<Rightarrow> (Inl TypeError, s1)
             | Parsed data \<Rightarrow>
                 fetchNagerDateHolidays_years w countryCode years
                   (foldl setAdd holidays (map bh_date data)) s1))"

definition fetchNagerDateHolidays_try ::
  "world \<Rightarrow> string \<Rightarrow> state \<Rightarrow> (exn + string list) \<times> state" where
  "fetchNagerDateHolidays_try w countryCode s =
     (let currentYear = getFullYear w (nowAt w (clockReads s));
          s1 = s\<lparr>clockReads := Suc (clockReads s)\<rparr>;
          nextYear = currentYear + 1
      in fetchNagerDateHolidays_years w countryCode [currentYear, nextYear] [] s1)"

definition fetchNagerDateHolidays :: "world \<Rightarrow> string \<Rightarrow> state \<Rightarrow> string list \<times> state" where
  "fetchNagerDateHolidays w countryCode s =
     (case fetchNagerDateHolidays_try w countryCode (s\<lparr>fetches := Suc (fetches s)\<rparr>) of
        (Inr holidays, s') \<Rightarrow> (holidays, s')
      | (Inl error, s') \<Rightarrow> ([], s'))"

definition fetchBankHolidays :: "Config \<Rightarrow> world \<Rightarrow> state \<Rightarrow> string list \<times> state" where
  "fetchBankHolidays cfg w s =
     (let now = nowAt w (clockReads s);
          s0 = s\<lparr>clockReads := Suc (clockReads s)\<rparr>;
          country = bankHolidayCountry cfg
      in if \<not> enableBankHolidays cfg then ([], s0)
         else if cachedHolidays s0 \<noteq> None \<and> now < cacheExpiry s0 \<and> cachedCountry s0 = Some country
         then (the (cachedHolidays s0), s0)
         else
           (let (holidays, s1) =
                  (if country = ''GB'' then fetchUKBankHolidays w s0
                   else fetchNagerDateHolidays w country s0)
            in (holidays,
                s1\<lparr>cachedHolidays := Some holidays, cachedCountry := Some country,
                   cacheExpiry := now + 24 * 60 * 60 * 1000\<rparr>)))"

text \<open>
  \<open>isUKBankHoliday\<close> has no \<open>try\<close>: what \<open>format\<close> raises, after the holidays have been
  fetched, is raised to the caller.
\<close>

definition isUKBankHoliday :: "Config \<Rightarrow> world \<Rightarrow> date \<Rightarrow> state \<Rightarrow> (exn + bool) \<times> state" where
  "isUKBankHoliday cfg w d s =
     (if \<not> enableBankHolidays cfg then (Inr False, s)
      else
        (let (holidays, s') = fetchBankHolidays cfg w s in
         case format_yyyy_MM_dd w d of
           Inl error \<Rightarrow> (Inl error, s')
         | Inr dateString \<Rightarrow> (Inr (dateString \<in> set holidays), s')))"

section \<open>The working-day calculator (dateCalculations.ts)\<close>

definition UK_TIMEZONE :: string where
  "UK_TIMEZONE = ''Europe/London''"

definition isWorkingDay :: "Config \<Rightarrow> world \<Rightarrow> date \<Rightarrow> state \<Rightarrow> (exn + bool) \<times> state" where
  "isWorkingDay cfg w d s =
     (if isWeekend w d then (Inr False, s)
      else
        (case isUKBankHoliday cfg w d s of
           (Inl error, s') \<Rightarrow> (Inl error, s')
         | (Inr holiday, s') \<Rightarrow> (Inr (\<not> holiday), s')))"

text \<open>
  The \<open>while\<close> loop of \<open>getNextWorkingDay\<close>. Nothing in the code bounds it, so it is a
  partial function: \<open>None\<close> is the loop that never ends.
\<close>

partial_function (option) getNextWorkingDay_loop ::
  "Config \<Rightarrow> world \<Rightarrow> date \<Rightarrow> state \<Rightarrow> ((exn + date) \<times> state) option" where
  "getNextWorkingDay_loop cfg w current s =
     (case isWorkingDay cfg w current s of
        (Inl error, s') \<Rightarrow> Some (Inl error, s')
      | (Inr working, s') \<Rightarrow>
          if \<not> working then getNextWorkingDay_loop cfg w (addDays w current 1) s'
          else Some (Inr current, s'))"

declare getNextWorkingDay_loop.simps [code]

definition getNextWorkingDay ::
  "Config \<Rightarrow> world \<Rightarrow> date \<Rightarrow> state \<Rightarrow> ((exn + date) \<times> state) option" where
  "getNextWorkingDay cfg w fromDate s = getNextWorkingDay_loop cfg w (addDays w fromDate 1) s"

datatype direction = Forward | Backward

partial_function (option) calculateWorkingDays_loop ::
  "Config \<Rightarrow> world \<Rightarrow> direction \<Rightarrow> int \<Rightarrow> date \<Rightarrow> int \<Rightarrow> state
     \<Rightarrow> ((exn + date) \<times> state) option" where
  "calculateWorkingDays_loop cfg w dir numDays current workingDaysCount s =
     (if workingDaysCount < \<bar>numDays\<bar> then
        (let current' =
               (case dir of Forward \<Rightarrow> addDays w current 1 | Backward \<Rightarrow> subDays w current 1)
         in case isWorkingDay cfg w current' s of
              (Inl error, s') \<Rightarrow> Some (Inl error, s')
            | (Inr working, s') \<Rightarrow>
                calculateWorkingDays_loop cfg w dir numDays current'
                  (if working then workingDaysCount + 1 else workingDaysCount) s')
      else Some (Inr current, s))"

declare calculateWorkingDays_loop.simps [code]

definition calculateWorkingDays ::
  "Config \<Rightarrow> world \<Rightarrow> date \<Rightarrow> int \<Rightarrow> direction \<Rightarrow> state \<Rightarrow> ((exn + date) \<times> state) option" where
  "calculateWorkingDays cfg w startDate numDays dir s =
     calculateWorkingDays_loop cfg w dir numDays startDate 0 s"

partial_function (option) getWorkingDaysBetween_loop ::
  "Config \<Rightarrow> world \<Rightarrow> date \<Rightarrow> date \<Rightarrow> int \<Rightarrow> state \<Rightarrow> ((exn + int) \<times> state) option" where
  "getWorkingDaysBetween_loop cfg w endDate current workingDays s =
     (if dateLessEq current endDate then
        (case isWorkingDay cfg w current s of
           (Inl error, s') \<Rightarrow> Some (Inl error, s')
         | (Inr working, s') \<Rightarrow>
             getWorkingDaysBetween_loop cfg w endDate (addDays w current 1)
               (if working then workingDays + 1 else workingDays) s')
      else Some (Inr workingDays, s))"

declare getWorkingDaysBetween_loop.simps [code]

definition getWorkingDaysBetween ::
  "Config \<Rightarrow> world \<Rightarrow> date \<Rightarrow> date \<Rightarrow> state \<Rightarrow> ((exn + int) \<times> state) option" where
  "getWorkingDaysBetween cfg w startDate endDate s =
     (if dateGreater startDate endDate then Some (Inr 0, s)
      else getWorkingDaysBetween_loop cfg w endDate startDate 0 s)"

section \<open>The sprint calculator (dateCalculations.ts)\<close>

record SprintInfo =
  sprintNumber :: "int option"
  daysIntoSprint :: "int option"
  daysRemaining :: "int option"
  currentSprintStart :: date
  currentSprintEnd :: date

text \<open>
  Day counts and sprint lengths are integers, or NaN when a date is invalid.
  \<open>Math.floor(a / b)\<close> on integers is \<open>a div b\<close> and \<open>a % b\<close> is the remainder with the
  sign of \<open>a\<close>, both for \<open>b \<noteq> 0\<close>. date-fns \<open>addDays\<close> makes an invalid date of the
  amount NaN.
\<close>

definition getCurrentSprintInfo :: "world \<Rightarrow> date \<Rightarrow> int \<Rightarrow> state \<Rightarrow> SprintInfo \<times> state" where
  "getCurrentSprintInfo w sprintStart sprintLengthWeeks s =
     (let now = Date (nowAt w (clockReads s));
          s' = s\<lparr>clockReads := Suc (clockReads s)\<rparr>;
          daysSinceStart = differenceInDays w now sprintStart;
          sprintLengthDays = sprintLengthWeeks * 7;
          sprintNumber = map_option (\<lambda>d. d div sprintLengthDays + 1) daysSinceStart;
          daysIntoSprint = map_option (\<lambda>d. d smod sprintLengthDays) daysSinceStart;
          daysRemaining = map_option (\<lambda>i. sprintLengthDays - i) daysIntoSprint;
          currentSprintStart =
            (case sprintNumber of
               None \<Rightarrow> InvalidDate
             | Some n \<Rightarrow> addDays w sprintStart ((n - 1) * sprintLengthDays));
          currentSprintEnd = addDays w currentSprintStart (sprintLengthDays - 1)
      in (\<lparr>sprintNumber = sprintNumber, daysIntoSprint = daysIntoSprint,
            daysRemaining = daysRemaining, currentSprintStart = currentSprintStart,
            currentSprintEnd = currentSprintEnd\<rparr>, s'))"

definition getTodayUK :: "world \<Rightarrow> state \<Rightarrow> date \<times> state" where
  "getTodayUK w s =
     (utcToZonedTime w (Date (nowAt w (clockReads s))) UK_TIMEZONE,
      s\<lparr>clockReads := Suc (clockReads s)\<rparr>)"

section \<open>The due-date policy (asanaHelpers.ts)\<close>

definition ASANA_DUE_HOUR :: int where
  "ASANA_DUE_HOUR = 16"

text \<open>The four setters at the end of \<open>getAsanaDueDate\<close>.\<close>

definition atDueTime :: "world \<Rightarrow> date \<Rightarrow> date" where
  "atDueTime w dueDate =
     setMilliseconds w (setSeconds w (setMinutes w (setHours w dueDate ASANA_DUE_HOUR) 0) 0) 0"

definition getAsanaDueDate ::
  "Config \<Rightarrow> world \<Rightarrow> date option \<Rightarrow> state \<Rightarrow> ((exn + date) \<times> state) option" where
  "getAsanaDueDate cfg w fromDate s =
     (let (startDate, s0) = (case fromDate of Some d \<Rightarrow> (d, s) | None \<Rightarrow> getTodayUK w s);
          dayOfWeek = getDay w startDate
      in if dayOfWeek = Some 5 then
           (case getNextWorkingDay cfg w startDate s0 of
              None \<Rightarrow> None
            | Some (Inl error, s1) \<Rightarrow> Some (Inl error, s1)
            | Some (Inr dueDate, s1) \<Rightarrow>
                (case getNextWorkingDay cfg w dueDate s1 of
                   None \<Rightarrow> None
                 | Some (Inl error, s2) \<Rightarrow> Some (Inl error, s2)
                 | Some (Inr dueDate', s2) \<Rightarrow> Some (Inr (atDueTime w dueDate'), s2)))
         else
           (case getNextWorkingDay cfg w startDate s0 of
              None \<Rightarrow> None
            | Some (Inl error, s1) \<Rightarrow> Some (Inl error, s1)
            | Some (Inr dueDate, s1) \<Rightarrow> Some (Inr (atDueTime w dueDate), s1)))"

section \<open>Predicates used in the statements\<close>

text \<open>
  \<open>cacheValid\<close> is the test of \<open>fetchBankHolidays\<close> for answering from the cache, at the
  clock reading the call is about to make. \<open>ukFailure\<close> and \<open>nagerFailure\<close> say that the
  \<open>k\<close>-th HTTP request fails: the network fails, or the body that is read is not JSON or
  not JSON of the expected shape (Nager.Date bodies are read only when the response is
  ok). \<open>sourceFailure\<close> says that the fetch \<open>fetchBankHolidays\<close> would make from the
  given state fails: its request to GOV.UK, or one of its two requests to Nager.Date.
\<close>

definition cacheValid :: "Config \<Rightarrow> world \<Rightarrow> state \<Rightarrow> bool" where
  "cacheValid cfg w s =
     (cachedHolidays s \<noteq> None \<and> nowAt w (clockReads s) < cacheExpiry s
      \<and> cachedCountry s = Some (bankHolidayCountry cfg))"

definition ukFailure :: "world \<Rightarrow> nat \<Rightarrow> bool" where
  "ukFailure w k =
     (case ukSource w k of
        Rejected \<Rightarrow> True
      | Resolved r \<Rightarrow> (case json r of Parsed events \<Rightarrow> False | _ \<Rightarrow> True))"

definition nagerFailure :: "world \<Rightarrow> nat \<Rightarrow> int \<Rightarrow> string \<Rightarrow> bool" where
  "nagerFailure w k year countryCode =
     (case nagerSource w k year countryCode of
        Rejected \<Rightarrow> True
      | Resolved r \<Rightarrow> ok r \<and> (case json r of Parsed data \<Rightarrow> False | _ \<Rightarrow> True))"

definition sourceFailure :: "Config \<Rightarrow> world \<Rightarrow> state \<Rightarrow> bool" where
  "sourceFailure cfg w s =
     (if bankHolidayCountry cfg = ''GB'' then ukFailure w (requests s)
      else (let year = getFullYear w (nowAt w (Suc (clockReads s)))
            in nagerFailure w (requests s) year (bankHolidayCountry cfg)
               \<or> nagerFailure w (Suc (requests s)) (year + 1) (bankHolidayCountry cfg)))"

text \<open>
  The holiday set that one call of \<open>isUKBankHoliday\<close> consults, with the state the call
  leaves; the state after \<open>n\<close> such calls; and the environments in which every such call,
  from the given state on, consults the same set \<open>hs\<close> (holidays are disabled, or the
  cache stays valid, or every refetch returns the same data).
\<close>

definition holidayLookup :: "Config \<Rightarrow> world \<Rightarrow> state \<Rightarrow> string list \<times> state" where
  "holidayLookup cfg w s = (if \<not> enableBankHolidays cfg then ([], s) else fetchBankHolidays cfg w s)"

fun afterLookups :: "Config \<Rightarrow> world \<Rightarrow> nat \<Rightarrow> state \<Rightarrow> state" where
  "afterLookups cfg w 0 s = s"
| "afterLookups cfg w (Suc n) s = afterLookups cfg w n (snd (holidayLookup cfg w s))"

definition steady :: "Config \<Rightarrow> world \<Rightarrow> string list \<Rightarrow> state \<Rightarrow> bool" where
  "steady cfg w hs s = (\<forall>n. fst (holidayLookup cfg w (afterLookups cfg w n s)) = hs)"

text \<open>
  A working day with respect to a given holiday set: a valid date that is not on a
  weekend and whose calendar date is not in the set.
\<close>

definition workingDayIn :: "world \<Rightarrow> string list \<Rightarrow> date \<Rightarrow> bool" where
  "workingDayIn w hs d =
     (case d of
        InvalidDate \<Rightarrow> False
      | Date t \<Rightarrow> \<not> isWeekend w (Date t) \<and> formatDay (localDay w t) \<notin> set hs)"

text \<open>The date reached from \<open>d\<close> by \<open>n\<close> steps of \<open>addDays\<close> by one day.\<close>

fun stepDays :: "world \<Rightarrow> date \<Rightarrow> nat \<Rightarrow> date" where
  "stepDays w d 0 = d"
| "stepDays w d (Suc n) = stepDays w (addDays w d 1) n"

text \<open>
  What the statements about stepping through the calendar ask of the zone of the
  process: a local time that is written and read back is on the day that was written;
  the local calendar day never goes back as time goes on; and the offset from UTC is
  less than a day. Zones with a fixed offset are such, and so are zones whose clock
  changes stay inside one calendar day, as in Europe/London.
\<close>

definition regularZone :: "world \<Rightarrow> bool" where
  "regularZone w =
     ((\<forall>l. LocalTime w (UTC w l) div msPerDay = l div msPerDay)
      \<and> (\<forall>a b. a \<le> b \<longrightarrow> localDay w a \<le> localDay w b)
      \<and> (\<forall>t u. \<bar>localTZA w t u\<bar> < msPerDay))"

section \<open>Concrete environments and configurations\<close>

text \<open>
  A process running in UTC on Friday 3 January 2025 at 20:00 UTC, with both holiday
  sources unreachable; New Zealand is 13 hours ahead of UTC on that day.
\<close>

definition utcWorld :: world where
  "utcWorld = \<lparr>localTZA = (\<lambda>t isUTC. 0),
     zoneOffset = (\<lambda>tz t. if tz = ''Pacific/Auckland'' then 13 * 3600000 else 0),
     nowAt = (\<lambda>k. 1735934400000), ukSource = (\<lambda>k. Rejected),
     nagerSource = (\<lambda>k year country. Rejected)\<rparr>"

text \<open>
  The configurations \<open>getConfig\<close> returns for \<open>ASANA_DUE_HOUR=9\<close> alone, for
  \<open>BANK_HOLIDAY_COUNTRY=GB\<close> and for \<open>BANK_HOLIDAY_COUNTRY=NZ\<close>.
\<close>

definition weekendsOnly :: Config where
  "weekendsOnly = \<lparr>timezone = ''Europe/London'', asanaDueHour = 9,
     bankHolidayCountry = ''NONE'', enableBankHolidays = False\<rparr>"

definition ukConfig :: Config where
  "ukConfig = \<lparr>timezone = ''Europe/London'', asanaDueHour = 16,
     bankHolidayCountry = ''GB'', enableBankHolidays = True\<rparr>"

definition nzConfig :: Config where
  "nzConfig = \<lparr>timezone = ''Pacific/Auckland'', asanaDueHour = 16,
     bankHolidayCountry = ''NZ'', enableBankHolidays = True\<rparr>"

text \<open>
  The same moment with a clock that advances by a second at each reading and sources
  that answer badly: GOV.UK with a 503 whose body is not JSON, Nager.Date with the
  holidays of the first year asked for and then with JSON of the wrong shape.
\<close>

definition flakyWorld :: world where
  "flakyWorld = \<lparr>localTZA = (\<lambda>t isUTC. 0),
     zoneOffset = (\<lambda>tz t. if tz = ''Pacific/Auckland'' then 13 * 3600000 else 0),
     nowAt = (\<lambda>k. 1735934400000 + 1000 * int k),
     ukSource = (\<lambda>k. Resolved \<lparr>ok = False, status = 503, json = Unparseable\<rparr>),
     nagerSource = (\<lambda>k year country.
        if k = 0 then Resolved \<lparr>ok = True, status = 200,
             json = Parsed [\<lparr>bh_date = ''2025-01-01'', bh_localName = ''New Year'',
                            bh_name = ''New Year''\<rparr>]\<rparr>
        else Resolved \<lparr>ok = True, status = 200, json = Malformed\<rparr>)\<rparr>"

text \<open>
  A process running in UTC on Wednesday 24 December 2025 at 10:00 UTC, where GOV.UK
  lists Christmas Day and Boxing Day; and the state of the module after it has fetched
  them at that moment.
\<close>

definition christmasWorld :: world where
  "christmasWorld = \<lparr>localTZA = (\<lambda>t isUTC. 0), zoneOffset = (\<lambda>tz t. 0),
     nowAt = (\<lambda>k. 1766570400000),
     ukSource = (\<lambda>k. Resolved \<lparr>ok = True, status = 200,
        json = Parsed [\<lparr>ev_title = ''Christmas Day'', ev_date = ''2025-12-25'', ev_notes = [],
                         ev_bunting = True\<rparr>,
                       \<lparr>ev_title = ''Boxing Day'', ev_date = ''2025-12-26'', ev_notes = [],
                         ev_bunting = True\<rparr>]\<rparr>),
     nagerSource = (\<lambda>k year country. Rejected)\<rparr>"

definition christmasCache :: state where
  "christmasCache = \<lparr>cachedHolidays = Some [''2025-12-25'', ''2025-12-26''],
     cacheExpiry = 1766656800000, cachedCountry = Some ''GB'',
     clockReads = 1, requests = 1, fetches = 1\<rparr>"

text \<open>
  A cache filled for New Zealand an hour before the clock of \<open>utcWorld\<close>, holding
  Waitangi Day.
\<close>

definition nzCache :: state where
  "nzCache = \<lparr>cachedHolidays = Some [''2025-02-06''],
     cacheExpiry = 1736017200000, cachedCountry = Some ''NZ'',
     clockReads = 1, requests = 2, fetches = 1\<rparr>"

text \<open>
  A process running in UTC in the week in which British Summer Time ends
  (26 October 2025, 01:00 UTC).
\<close>

definition autumnWorld :: world where
  "autumnWorld = \<lparr>localTZA = (\<lambda>t isUTC. 0),
     zoneOffset = (\<lambda>tz t. if tz = ''Europe/London'' \<and> t < 1761440400000 then 3600000 else 0),
     nowAt = (\<lambda>k. 1761300000000), ukSource = (\<lambda>k. Rejected),
     nagerSource = (\<lambda>k year country. Rejected)\<rparr>"

text \<open>
  A process running in Europe/London in the same week, on Friday 24 October 2025 at
  13:00 summer time. Summer time of 2025 runs from 30 March, 01:00 UTC, to 26 October,
  01:00 UTC; a local time in the hour skipped in March is read with the winter offset
  and a local time in the hour repeated in October with the summer offset, the offset
  before the change.
\<close>

definition londonWorld :: world where
  "londonWorld = \<lparr>
     localTZA = (\<lambda>t isUTC.
        if isUTC then (if 1743296400000 \<le> t \<and> t < 1761440400000 then 3600000 else 0)
        else (if 1743300000000 \<le> t \<and> t < 1761444000000 then 3600000 else 0)),
     zoneOffset = (\<lambda>tz t.
        if tz = ''Europe/London'' \<and> 1743296400000 \<le> t \<and> t < 1761440400000 then 3600000 else 0),
     nowAt = (\<lambda>k. 1761307200000), ukSource = (\<lambda>k. Rejected),
     nagerSource = (\<lambda>k year country. Rejected)\<rparr>"

section \<open>The holiday cache\<close>

lemma fetchUKBankHolidays_frame:
  "snd (fetchUKBankHolidays w s) = s\<lparr>requests := Suc (requests s), fetches := Suc (fetches s)\<rparr>"
  by (simp add: fetchUKBankHolidays_def fetchUKBankHolidays_try_def Let_def
      split: outcome.splits body.splits)

lemma fetchNagerDateHolidays_years_frame:
  "cachedHolidays (snd (fetchNagerDateHolidays_years w c years hs s)) = cachedHolidays s
   \<and> cacheExpiry (snd (fetchNagerDateHolidays_years w c years hs s)) = cacheExpiry s
   \<and> cachedCountry (snd (fetchNagerDateHolidays_years w c years hs s)) = cachedCountry s
   \<and> clockReads (snd (fetchNagerDateHolidays_years w c years hs s)) = clockReads s
   \<and> fetches (snd (fetchNagerDateHolidays_years w c years hs s)) = fetches s"
  by (induction years arbitrary: hs s) (simp_all add: Let_def split: outcome.splits body.splits)

lemma fetchNagerDateHolidays_frame:
  "cachedHolidays (snd (fetchNagerDateHolidays w c s)) = cachedHolidays s
   \<and> cacheExpiry (snd (fetchNagerDateHolidays w c s)) = cacheExpiry s
   \<and> cachedCountry (snd (fetchNagerDateHolidays w c s)) = cachedCountry s
   \<and> fetches (snd (fetchNagerDateHolidays w c s)) = Suc (fetches s)"
proof -
  have "snd (fetchNagerDateHolidays w c s)
      = snd (fetchNagerDateHolidays_try w c (s\<lparr>fetches := Suc (fetches s)\<rparr>))"
    by (simp add: fetchNagerDateHolidays_def split: prod.splits sum.splits)
  then show ?thesis
    by (simp add: fetchNagerDateHolidays_try_def Let_def fetchNagerDateHolidays_years_frame
        del: fetchNagerDateHolidays_years.simps)
qed

text \<open>A cache hit.\<close>

lemma fetchBankHolidays_hit:
  assumes "enableBankHolidays cfg" "cacheValid cfg w s"
  shows "fetchBankHolidays cfg w s = (the (cachedHolidays s), s\<lparr>clockReads := Suc (clockReads s)\<rparr>)"
  using assms by (simp add: fetchBankHolidays_def cacheValid_def Let_def)

text \<open>A cache miss: one external fetch, and the cache is replaced.\<close>

lemma fetchBankHolidays_miss:
  assumes "enableBankHolidays cfg" "\<not> cacheValid cfg w s"
  shows "cachedHolidays (snd (fetchBankHolidays cfg w s)) = Some (fst (fetchBankHolidays cfg w s))
    \<and> cachedCountry (snd (fetchBankHolidays cfg w s)) = Some (bankHolidayCountry cfg)
    \<and> cacheExpiry (snd (fetchBankHolidays cfg w s)) = nowAt w (clockReads s) + 24 * 60 * 60 * 1000
    \<and> fetches (snd (fetchBankHolidays cfg w s)) = Suc (fetches s)"
proof -
  define s0 where "s0 = s\<lparr>clockReads := Suc (clockReads s)\<rparr>"
  define r where "r = (if bankHolidayCountry cfg = ''GB'' then fetchUKBankHolidays w s0
                   else fetchNagerDateHolidays w (bankHolidayCountry cfg) s0)"
  have miss: "\<not> (cachedHolidays s0 \<noteq> None \<and> nowAt w (clockReads s) < cacheExpiry s0
      \<and> cachedCountry s0 = Some (bankHolidayCountry cfg))"
    using assms(2) by (simp add: cacheValid_def s0_def)
  have eq: "fetchBankHolidays cfg w s =
      (fst r, (snd r)\<lparr>cachedHolidays := Some (fst r),
         cachedCountry := Some (bankHolidayCountry cfg),
         cacheExpiry := nowAt w (clockReads s) + 24 * 60 * 60 * 1000\<rparr>)"
    using assms(1) miss
    unfolding fetchBankHolidays_def Let_def s0_def [symmetric] r_def [symmetric]
    by (auto simp: case_prod_unfold)
  have "fetches (snd r) = Suc (fetches s)"
    by (simp add: r_def fetchUKBankHolidays_frame fetchNagerDateHolidays_frame s0_def)
  then show ?thesis by (simp add: eq)
qed

text \<open>What a failing source gives.\<close>

lemma fetchUKBankHolidays_failure:
  "ukFailure w (requests s) \<Longrightarrow> fst (fetchUKBankHolidays w s) = []"
  by (simp add: ukFailure_def fetchUKBankHolidays_def fetchUKBankHolidays_try_def Let_def
      split: outcome.splits body.splits)

lemma fetchNagerDateHolidays_failure:
  assumes "nagerFailure w (requests s) (getFullYear w (nowAt w (clockReads s))) c
     \<or> nagerFailure w (Suc (requests s)) (getFullYear w (nowAt w (clockReads s)) + 1) c"
  shows "fst (fetchNagerDateHolidays w c s) = []"
  using assms
  by (auto simp add: nagerFailure_def fetchNagerDateHolidays_def fetchNagerDateHolidays_try_def Let_def
      split: outcome.splits body.splits)

lemma fetchBankHolidays_failure:
  assumes "enableBankHolidays cfg" "\<not> cacheValid cfg w s" "sourceFailure cfg w s"
  shows "fst (fetchBankHolidays cfg w s) = []"
proof -
  define s0 where "s0 = s\<lparr>clockReads := Suc (clockReads s)\<rparr>"
  define r where "r = (if bankHolidayCountry cfg = ''GB'' then fetchUKBankHolidays w s0
                   else fetchNagerDateHolidays w (bankHolidayCountry cfg) s0)"
  have miss: "\<not> (cachedHolidays s0 \<noteq> None \<and> nowAt w (clockReads s) < cacheExpiry s0
      \<and> cachedCountry s0 = Some (bankHolidayCountry cfg))"
    using assms(2) by (simp add: cacheValid_def s0_def)
  have eq: "fst (fetchBankHolidays cfg w s) = fst r"
    using assms(1) miss
    unfolding fetchBankHolidays_def Let_def s0_def [symmetric] r_def [symmetric]
    by (auto simp: case_prod_unfold)
  have "fst r = []"
  proof (cases "bankHolidayCountry cfg = ''GB''")
    case True
    with assms(3) have "ukFailure w (requests s0)" by (simp add: sourceFailure_def s0_def)
    then show ?thesis using True by (simp add: r_def fetchUKBankHolidays_failure)
  next
    case False
    with assms(3) have "nagerFailure w (requests s0) (getFullYear w (nowAt w (clockReads s0))) (bankHolidayCountry cfg)
     \<or> nagerFailure w (Suc (requests s0)) (getFullYear w (nowAt w (clockReads s0)) + 1) (bankHolidayCountry cfg)"
      by (simp add: sourceFailure_def s0_def Let_def)
    then show ?thesis using False by (simp add: r_def fetchNagerDateHolidays_failure)
  qed
  with eq show ?thesis by simp
qed



lemma fetchBankHolidays_fetches:
  assumes "enableBankHolidays cfg"
  shows "fetches (snd (fetchBankHolidays cfg w s))
     = (if cacheValid cfg w s then fetches s else Suc (fetches s))"
  using assms fetchBankHolidays_hit [of cfg w s] fetchBankHolidays_miss [of cfg w s]
  by (cases "cacheValid cfg w s") simp_all

text \<open>
  Claim C5. With holidays enabled (a disabled configuration returns the empty set before
  the cache is looked at): whenever a cached set exists that was fetched for the
  configured country and less than 24 hours before the clock reading of the call,
  \<open>fetchBankHolidays\<close> returns that set and changes nothing but the count of clock
  readings, so it makes no external fetch and leaves the cache as it is. Hence two calls
  for the same country, the second reading the clock less than 24 hours after the first,
  make at most one external fetch between them (one call of \<open>fetchUKBankHolidays\<close> or
  \<open>fetchNagerDateHolidays\<close>). And when the cache was filled for another country, the
  call makes an external fetch whatever the expiry time of the cache is.
\<close>

theorem fetchBankHolidays_cache:
  assumes "enableBankHolidays cfg"
  shows "(cachedHolidays s = Some hs \<and> cachedCountry s = Some (bankHolidayCountry cfg)
          \<and> cacheExpiry s = fetchedAt + 24 * 60 * 60 * 1000
          \<and> nowAt w (clockReads s) - fetchedAt < 24 * 60 * 60 * 1000
          \<longrightarrow> fetchBankHolidays cfg w s = (hs, s\<lparr>clockReads := Suc (clockReads s)\<rparr>))
       \<and> (\<forall>k. nowAt w k - nowAt w (clockReads s) < 24 * 60 * 60 * 1000
          \<longrightarrow> fetches (snd (fetchBankHolidays cfg w
                  ((snd (fetchBankHolidays cfg w s))\<lparr>clockReads := k\<rparr>))) \<le> Suc (fetches s))
       \<and> (cachedCountry s \<noteq> Some (bankHolidayCountry cfg)
          \<longrightarrow> fetches (snd (fetchBankHolidays cfg w s)) = Suc (fetches s))"
proof (intro conjI impI allI)
  assume "cachedHolidays s = Some hs \<and> cachedCountry s = Some (bankHolidayCountry cfg)
          \<and> cacheExpiry s = fetchedAt + 24 * 60 * 60 * 1000
          \<and> nowAt w (clockReads s) - fetchedAt < 24 * 60 * 60 * 1000"
  then have "cacheValid cfg w s" "the (cachedHolidays s) = hs"
    by (simp_all add: cacheValid_def)
  with fetchBankHolidays_hit [OF assms, of w s]
  show "fetchBankHolidays cfg w s = (hs, s\<lparr>clockReads := Suc (clockReads s)\<rparr>)" by simp
next
  fix k assume within: "nowAt w k - nowAt w (clockReads s) < 24 * 60 * 60 * 1000"
  define s1 where "s1 = snd (fetchBankHolidays cfg w s)"
  have second: "fetches (snd (fetchBankHolidays cfg w (s1\<lparr>clockReads := k\<rparr>)))
      = (if cacheValid cfg w (s1\<lparr>clockReads := k\<rparr>) then fetches s1 else Suc (fetches s1))"
    using fetchBankHolidays_fetches [OF assms, of w "s1\<lparr>clockReads := k\<rparr>"] by simp
  show "fetches (snd (fetchBankHolidays cfg w (s1\<lparr>clockReads := k\<rparr>))) \<le> Suc (fetches s)"
  proof (cases "cacheValid cfg w s")
    case True
    then have "fetches s1 = fetches s"
      using fetchBankHolidays_fetches [OF assms, of w s] by (simp add: s1_def)
    with second show ?thesis by simp
  next
    case False
    from fetchBankHolidays_miss [OF assms False]
    have "cacheValid cfg w (s1\<lparr>clockReads := k\<rparr>)" "fetches s1 = Suc (fetches s)"
      using within by (simp_all add: cacheValid_def s1_def)
    with second show ?thesis by simp
  qed
next
  assume "cachedCountry s \<noteq> Some (bankHolidayCountry cfg)"
  then have "\<not> cacheValid cfg w s" by (simp add: cacheValid_def)
  then show "fetches (snd (fetchBankHolidays cfg w s)) = Suc (fetches s)"
    using fetchBankHolidays_fetches [OF assms, of w s] by simp
qed

theorem fetchBankHolidays_cache_witness:
  "enableBankHolidays ukConfig
   \<and> cachedHolidays christmasCache = Some [''2025-12-25'', ''2025-12-26'']
   \<and> cachedCountry christmasCache = Some (bankHolidayCountry ukConfig)
   \<and> cacheExpiry christmasCache = 1766570400000 + 24 * 60 * 60 * 1000
   \<and> nowAt christmasWorld (clockReads christmasCache) - 1766570400000 < 24 * 60 * 60 * 1000
   \<and> fetchBankHolidays ukConfig christmasWorld christmasCache
       = ([''2025-12-25'', ''2025-12-26''], christmasCache\<lparr>clockReads := 2\<rparr>)
   \<and> nowAt christmasWorld 5 - nowAt christmasWorld (clockReads initialState) < 24 * 60 * 60 * 1000
   \<and> fetches (snd (fetchBankHolidays ukConfig christmasWorld
         ((snd (fetchBankHolidays ukConfig christmasWorld initialState))\<lparr>clockReads := 5\<rparr>))) = 1
   \<and> cachedCountry christmasCache \<noteq> Some (bankHolidayCountry nzConfig)
   \<and> fetches (snd (fetchBankHolidays nzConfig christmasWorld christmasCache)) = 2"
  using fetchBankHolidays_cache [of ukConfig christmasCache "[''2025-12-25'', ''2025-12-26'']"
      1766570400000 christmasWorld]
    fetchBankHolidays_cache [of ukConfig initialState "[]" 0 christmasWorld]
    fetchBankHolidays_cache [of nzConfig christmasCache "[]" 0 christmasWorld]
  by (simp add: ukConfig_def nzConfig_def christmasCache_def christmasWorld_def initialState_def
      fetchBankHolidays_def fetchUKBankHolidays_def fetchUKBankHolidays_try_def setAdd_def Let_def)

text \<open>
  Claim C9. When a call of \<open>fetchBankHolidays\<close> has to fetch and the external fetch
  fails, the call returns the empty set and stores it: afterwards the cache holds the
  empty set, expires 24 hours after the clock reading of the call, and records the
  configured country. Every later call for the same country that reads the clock before
  that expiry returns the empty set and changes nothing but the count of clock readings:
  it attempts no new external fetch, and leaves the cache as it is for the calls after it.
\<close>

theorem fetchBankHolidays_failure_cached:
  assumes "enableBankHolidays cfg" and "\<not> cacheValid cfg w s" and "sourceFailure cfg w s"
  shows "(let s' = snd (fetchBankHolidays cfg w s) in
          fst (fetchBankHolidays cfg w s) = []
          \<and> cachedHolidays s' = Some []
          \<and> cacheExpiry s' = nowAt w (clockReads s) + 24 * 60 * 60 * 1000
          \<and> cachedCountry s' = Some (bankHolidayCountry cfg)
          \<and> (\<forall>k. nowAt w k < nowAt w (clockReads s) + 24 * 60 * 60 * 1000
               \<longrightarrow> fetchBankHolidays cfg w (s'\<lparr>clockReads := k\<rparr>)
                     = ([], s'\<lparr>clockReads := Suc k\<rparr>)))"
proof -
  define s' where "s' = snd (fetchBankHolidays cfg w s)"
  have empty: "fst (fetchBankHolidays cfg w s) = []"
    using assms by (rule fetchBankHolidays_failure)
  have fields: "cachedHolidays s' = Some []"
    "cacheExpiry s' = nowAt w (clockReads s) + 24 * 60 * 60 * 1000"
    "cachedCountry s' = Some (bankHolidayCountry cfg)"
    using fetchBankHolidays_miss [OF assms(1,2)] empty by (simp_all add: s'_def)
  have later: "fetchBankHolidays cfg w (s'\<lparr>clockReads := k\<rparr>) = ([], s'\<lparr>clockReads := Suc k\<rparr>)"
    if "nowAt w k < nowAt w (clockReads s) + 24 * 60 * 60 * 1000" for k
  proof -
    have "cacheValid cfg w (s'\<lparr>clockReads := k\<rparr>)"
      using fields that by (simp add: cacheValid_def)
    from fetchBankHolidays_hit [OF assms(1) this] fields show ?thesis by simp
  qed
  show ?thesis
    unfolding Let_def s'_def [symmetric] using empty fields later by blast
qed

theorem fetchBankHolidays_failure_cached_witness:
  "enableBankHolidays nzConfig \<and> \<not> cacheValid nzConfig flakyWorld initialState
   \<and> sourceFailure nzConfig flakyWorld initialState
   \<and> fst (fetchBankHolidays nzConfig flakyWorld initialState) = []
   \<and> cachedHolidays (snd (fetchBankHolidays nzConfig flakyWorld initialState)) = Some []
   \<and> cacheExpiry (snd (fetchBankHolidays nzConfig flakyWorld initialState)) = 1736020800000
   \<and> cachedCountry (snd (fetchBankHolidays nzConfig flakyWorld initialState)) = Some ''NZ''
   \<and> nowAt flakyWorld 7 < nowAt flakyWorld (clockReads initialState) + 24 * 60 * 60 * 1000
   \<and> fetchBankHolidays nzConfig flakyWorld
        ((snd (fetchBankHolidays nzConfig flakyWorld initialState))\<lparr>clockReads := 7\<rparr>)
       = ([], (snd (fetchBankHolidays nzConfig flakyWorld initialState))\<lparr>clockReads := 8\<rparr>)"
proof -
  have h1: "enableBankHolidays nzConfig" by (simp add: nzConfig_def)
  have h2: "\<not> cacheValid nzConfig flakyWorld initialState"
    by (simp add: cacheValid_def initialState_def)
  have h3: "sourceFailure nzConfig flakyWorld initialState"
    by (simp add: sourceFailure_def nagerFailure_def nzConfig_def flakyWorld_def initialState_def)
  have h4: "nowAt flakyWorld 7 < nowAt flakyWorld (clockReads initialState) + 24 * 60 * 60 * 1000"
    by (simp add: flakyWorld_def)
  have now: "nowAt flakyWorld (clockReads initialState) = 1735934400000"
    by (simp add: flakyWorld_def initialState_def)
  have country: "bankHolidayCountry nzConfig = ''NZ''" by (simp add: nzConfig_def)
  show ?thesis
    using fetchBankHolidays_failure_cached [OF h1 h2 h3] h1 h2 h3 h4
    by (simp add: Let_def now country)
qed

lemma fetchUKBankHolidays_raises:
  "(\<exists>e. fst (fetchUKBankHolidays_try w s) = Inl e) = ukFailure w (requests s)"
  by (simp add: ukFailure_def fetchUKBankHolidays_try_def Let_def
      split: outcome.splits body.splits)

lemma fetchNagerDateHolidays_raises:
  "(\<exists>e. fst (fetchNagerDateHolidays_try w c s) = Inl e)
     = (nagerFailure w (requests s) (getFullYear w (nowAt w (clockReads s))) c
        \<or> nagerFailure w (Suc (requests s)) (getFullYear w (nowAt w (clockReads s)) + 1) c)"
  by (auto simp add: nagerFailure_def fetchNagerDateHolidays_try_def Let_def
      split: outcome.splits body.splits)

lemma isUKBankHoliday_raises:
  "fst (isUKBankHoliday cfg w d s) = Inl e \<Longrightarrow> e = RangeError \<and> d = InvalidDate"
  by (cases d)
     (auto simp: isUKBankHoliday_def format_yyyy_MM_dd_def Let_def case_prod_unfold
        split: if_splits)

lemma isWorkingDay_raises:
  "fst (isWorkingDay cfg w d s) = Inl e \<Longrightarrow> e = RangeError \<and> d = InvalidDate"
proof -
  assume a: "fst (isWorkingDay cfg w d s) = Inl e"
  then have "fst (isUKBankHoliday cfg w d s) = Inl e"
    by (auto simp: isWorkingDay_def split: if_splits prod.splits sum.splits)
  then show ?thesis by (rule isUKBankHoliday_raises)
qed

text \<open>
  Claim C6. The \<open>try\<close> block of \<open>fetchUKBankHolidays\<close> raises exactly when its request
  fails (the network fails, the body is not JSON, or the JSON has not the expected
  shape), and then the function returns the empty set. The \<open>try\<close> block of
  \<open>fetchNagerDateHolidays\<close> raises exactly when one of its two requests fails in this
  way (a response that is not ok raises nothing: that year is skipped), and then the
  function returns the empty set, dropping what an earlier year gave. The functions
  return a set in every case, so no exception of a fetch reaches \<open>isUKBankHoliday\<close> or
  \<open>isWorkingDay\<close>: when the fetch they trigger fails, no valid date is a holiday and a
  valid date is a working day exactly when it is not on a weekend (for the invalid date
  \<open>format\<close> raises its \<open>RangeError\<close>, as it does when the fetch succeeds); and whatever
  the date, the state and the sources, neither function raises one of the exceptions of
  a fetch.
\<close>

theorem holiday_fetch_fails_open:
  "((\<exists>e. fst (fetchUKBankHolidays_try w s) = Inl e) = ukFailure w (requests s))
   \<and> (ukFailure w (requests s) \<longrightarrow> fst (fetchUKBankHolidays w s) = [])
   \<and> ((\<exists>e. fst (fetchNagerDateHolidays_try w c s) = Inl e)
        = (nagerFailure w (requests s) (getFullYear w (nowAt w (clockReads s))) c
           \<or> nagerFailure w (Suc (requests s)) (getFullYear w (nowAt w (clockReads s)) + 1) c))
   \<and> (nagerFailure w (requests s) (getFullYear w (nowAt w (clockReads s))) c
        \<or> nagerFailure w (Suc (requests s)) (getFullYear w (nowAt w (clockReads s)) + 1) c
       \<longrightarrow> fst (fetchNagerDateHolidays w c s) = [])
   \<and> (enableBankHolidays cfg \<and> \<not> cacheValid cfg w s \<and> sourceFailure cfg w s
       \<longrightarrow> fst (isUKBankHoliday cfg w d s)
             = (case d of InvalidDate \<Rightarrow> Inl RangeError | Date t \<Rightarrow> Inr False)
           \<and> fst (isWorkingDay cfg w d s)
             = (case d of InvalidDate \<Rightarrow> Inl RangeError
                | Date t \<Rightarrow> Inr (\<not> isWeekend w (Date t))))
   \<and> fst (isUKBankHoliday cfg w d s) \<noteq> Inl FetchError
   \<and> fst (isUKBankHoliday cfg w d s) \<noteq> Inl SyntaxError
   \<and> fst (isUKBankHoliday cfg w d s) \<noteq> Inl TypeError
   \<and> fst (isWorkingDay cfg w d s) \<noteq> Inl FetchError
   \<and> fst (isWorkingDay cfg w d s) \<noteq> Inl SyntaxError
   \<and> fst (isWorkingDay cfg w d s) \<noteq> Inl TypeError"
proof (intro conjI impI)
  show "(\<exists>e. fst (fetchUKBankHolidays_try w s) = Inl e) = ukFailure w (requests s)"
    by (rule fetchUKBankHolidays_raises)
  show "(\<exists>e. fst (fetchNagerDateHolidays_try w c s) = Inl e)
        = (nagerFailure w (requests s) (getFullYear w (nowAt w (clockReads s))) c
           \<or> nagerFailure w (Suc (requests s)) (getFullYear w (nowAt w (clockReads s)) + 1) c)"
    by (rule fetchNagerDateHolidays_raises)
  show "fst (isUKBankHoliday cfg w d s) \<noteq> Inl FetchError"
    "fst (isUKBankHoliday cfg w d s) \<noteq> Inl SyntaxError"
    "fst (isUKBankHoliday cfg w d s) \<noteq> Inl TypeError"
    using isUKBankHoliday_raises [of cfg w d s] by auto
  show "fst (isWorkingDay cfg w d s) \<noteq> Inl FetchError"
    "fst (isWorkingDay cfg w d s) \<noteq> Inl SyntaxError"
    "fst (isWorkingDay cfg w d s) \<noteq> Inl TypeError"
    using isWorkingDay_raises [of cfg w d s] by auto
next
  assume "ukFailure w (requests s)"
  then show "fst (fetchUKBankHolidays w s) = []" by (rule fetchUKBankHolidays_failure)
next
  assume "nagerFailure w (requests s) (getFullYear w (nowAt w (clockReads s))) c
        \<or> nagerFailure w (Suc (requests s)) (getFullYear w (nowAt w (clockReads s)) + 1) c"
  then show "fst (fetchNagerDateHolidays w c s) = []" by (rule fetchNagerDateHolidays_failure)
next
  assume a: "enableBankHolidays cfg \<and> \<not> cacheValid cfg w s \<and> sourceFailure cfg w s"
  then have empty: "fst (fetchBankHolidays cfg w s) = []"
    by (simp add: fetchBankHolidays_failure)
  then show h: "fst (isUKBankHoliday cfg w d s)
      = (case d of InvalidDate \<Rightarrow> Inl RangeError | Date t \<Rightarrow> Inr False)"
    using a by (cases d)
      (simp_all add: isUKBankHoliday_def format_yyyy_MM_dd_def Let_def case_prod_unfold)
  show "fst (isWorkingDay cfg w d s)
      = (case d of InvalidDate \<Rightarrow> Inl RangeError | Date t \<Rightarrow> Inr (\<not> isWeekend w (Date t)))"
  proof (cases d)
    case InvalidDate
    then have "\<not> isWeekend w d" by (simp add: isWeekend_def getDay_def)
    then show ?thesis
      using h InvalidDate by (cases "isUKBankHoliday cfg w d s") (simp add: isWorkingDay_def)
  next
    case (Date t)
    then show ?thesis
      using h by (cases "isUKBankHoliday cfg w d s") (simp add: isWorkingDay_def)
  qed
qed

theorem holiday_fetch_fails_open_witness:
  "ukFailure flakyWorld (requests initialState)
   \<and> fst (fetchUKBankHolidays flakyWorld initialState) = []
   \<and> nagerFailure flakyWorld (Suc (requests initialState))
        (getFullYear flakyWorld (nowAt flakyWorld (clockReads initialState)) + 1) ''NZ''
   \<and> fst (fetchNagerDateHolidays flakyWorld ''NZ'' initialState) = []
   \<and> enableBankHolidays ukConfig \<and> \<not> cacheValid ukConfig flakyWorld initialState
   \<and> sourceFailure ukConfig flakyWorld initialState
   \<and> fst (isUKBankHoliday ukConfig flakyWorld (Date 1735934400000) initialState) = Inr False
   \<and> fst (isWorkingDay ukConfig flakyWorld (Date 1735934400000) initialState) = Inr True
   \<and> fst (isWorkingDay ukConfig flakyWorld InvalidDate initialState) = Inl RangeError"
proof -
  have h1: "ukFailure flakyWorld (requests initialState)"
    by (simp add: ukFailure_def flakyWorld_def initialState_def)
  have h2: "nagerFailure flakyWorld (Suc (requests initialState))
        (getFullYear flakyWorld (nowAt flakyWorld (clockReads initialState)) + 1) ''NZ''"
    by (simp add: nagerFailure_def flakyWorld_def initialState_def)
  have h3: "enableBankHolidays ukConfig" by (simp add: ukConfig_def)
  have h4: "\<not> cacheValid ukConfig flakyWorld initialState"
    by (simp add: cacheValid_def initialState_def)
  have h5: "sourceFailure ukConfig flakyWorld initialState"
    using h1 by (simp add: sourceFailure_def ukConfig_def)
  have wd: "\<not> isWeekend flakyWorld (Date 1735934400000)"
    by (simp add: isWeekend_def getDay_def weekdayOfDay_def localDay_def LocalTime_def
        flakyWorld_def msPerDay_def)
  show ?thesis
    using holiday_fetch_fails_open [of flakyWorld initialState "''NZ''" ukConfig "Date 1735934400000"]
      holiday_fetch_fails_open [of flakyWorld initialState "''NZ''" ukConfig InvalidDate]
      h1 h2 h3 h4 h5 wd
    by simp
qed

section \<open>Sprint position\<close>

lemma smod_nonneg: "0 \<le> a \<Longrightarrow> 0 < b \<Longrightarrow> (a::int) smod b = a mod b"
  by (simp add: smod_int_alt_def sgn_if)

text \<open>
  Claim C8. For a sprint length of at least one week and a first sprint that started
  \<open>d \<ge> 0\<close> full days before the clock reading (\<open>d\<close> is what \<open>differenceInDays\<close> returns
  for the two dates), \<open>getCurrentSprintInfo\<close> returns a sprint number of at least 1 and
  a position in the sprint from 0 up to, not including, the sprint length in days, with
  \<open>sprintNumber = floor(d / (7 * weeks)) + 1\<close>, \<open>daysIntoSprint = d mod (7 * weeks)\<close> and
  \<open>daysRemaining = 7 * weeks - daysIntoSprint\<close>.
\<close>

theorem getCurrentSprintInfo_position:
  assumes "1 \<le> sprintLengthWeeks"
    and "differenceInDays w (Date (nowAt w (clockReads s))) sprintStart = Some d"
    and "0 \<le> d"
  shows "\<exists>n i. sprintNumber (fst (getCurrentSprintInfo w sprintStart sprintLengthWeeks s)) = Some n
           \<and> daysIntoSprint (fst (getCurrentSprintInfo w sprintStart sprintLengthWeeks s)) = Some i
           \<and> daysRemaining (fst (getCurrentSprintInfo w sprintStart sprintLengthWeeks s))
               = Some (7 * sprintLengthWeeks - i)
           \<and> 1 \<le> n \<and> 0 \<le> i \<and> i < sprintLengthWeeks * 7
           \<and> n = d div (7 * sprintLengthWeeks) + 1
           \<and> i = d mod (7 * sprintLengthWeeks)"
proof -
  define L where "L = sprintLengthWeeks * 7"
  have L: "0 < L" using assms(1) by (simp add: L_def)
  have m: "d smod L = d mod L" using assms(3) L by (rule smod_nonneg)
  have q: "0 \<le> d div L" using assms(3) L by (simp add: pos_imp_zdiv_nonneg_iff)
  have r: "0 \<le> d mod L" "d mod L < L" using L by simp_all
  show ?thesis
    using m q r assms(2)
    by (simp add: getCurrentSprintInfo_def Let_def L_def [symmetric] mult.commute)
qed

theorem getCurrentSprintInfo_position_witness:
  "(1::int) \<le> 2
   \<and> differenceInDays utcWorld (Date (nowAt utcWorld (clockReads initialState)))
        (Date (20000 * msPerDay)) = Some 91
   \<and> (0::int) \<le> 91
   \<and> sprintNumber (fst (getCurrentSprintInfo utcWorld (Date (20000 * msPerDay)) 2 initialState))
       = Some 7
   \<and> daysIntoSprint (fst (getCurrentSprintInfo utcWorld (Date (20000 * msPerDay)) 2 initialState))
       = Some 7
   \<and> daysRemaining (fst (getCurrentSprintInfo utcWorld (Date (20000 * msPerDay)) 2 initialState))
       = Some 7"
proof -
  have d: "differenceInDays utcWorld (Date (nowAt utcWorld (clockReads initialState)))
        (Date (20000 * msPerDay)) = Some 91"
    by code_simp
  from getCurrentSprintInfo_position [of 2 utcWorld initialState "Date (20000 * msPerDay)" 91, OF _ d]
  show ?thesis using d by auto
qed

section \<open>Working days under a steady holiday set\<close>

lemma isUKBankHoliday_lookup:
  "isUKBankHoliday cfg w (Date t) s
     = (Inr (formatDay (localDay w t) \<in> set (fst (holidayLookup cfg w s))),
        snd (holidayLookup cfg w s))"
  by (simp add: isUKBankHoliday_def holidayLookup_def format_yyyy_MM_dd_def Let_def
      case_prod_unfold)

lemma steady_step:
  assumes "steady cfg w hs s"
  shows "fst (holidayLookup cfg w s) = hs" and "steady cfg w hs (snd (holidayLookup cfg w s))"
proof -
  from assms have all: "fst (holidayLookup cfg w (afterLookups cfg w n s)) = hs" for n
    by (simp add: steady_def)
  from all [of 0] show "fst (holidayLookup cfg w s) = hs" by simp
  from all have "fst (holidayLookup cfg w (afterLookups cfg w (Suc n) s)) = hs" for n .
  then show "steady cfg w hs (snd (holidayLookup cfg w s))" by (simp add: steady_def)
qed

lemma isWorkingDay_steady:
  assumes "steady cfg w hs s"
  shows "fst (isWorkingDay cfg w (Date t) s) = Inr (workingDayIn w hs (Date t))"
    and "steady cfg w hs (snd (isWorkingDay cfg w (Date t) s))"
  using assms steady_step [OF assms]
  by (simp_all add: isWorkingDay_def isUKBankHoliday_lookup workingDayIn_def)

lemma steady_disabled: "\<not> enableBankHolidays cfg \<Longrightarrow> steady cfg w [] s"
proof -
  assume off: "\<not> enableBankHolidays cfg"
  have "afterLookups cfg w n s = s" for n
    by (induction n) (simp_all add: holidayLookup_def off)
  then show ?thesis by (simp add: steady_def holidayLookup_def off)
qed

lemma steady_warm:
  assumes on: "enableBankHolidays cfg"
    and cache: "cachedHolidays s = Some hs" "cachedCountry s = Some (bankHolidayCountry cfg)"
    and clock: "\<forall>k. nowAt w k < cacheExpiry s"
  shows "steady cfg w hs s"
proof -
  have inv: "cachedHolidays (afterLookups cfg w n t) = Some hs
      \<and> cachedCountry (afterLookups cfg w n t) = Some (bankHolidayCountry cfg)
      \<and> cacheExpiry (afterLookups cfg w n t) = cacheExpiry s"
    if "cachedHolidays t = Some hs" "cachedCountry t = Some (bankHolidayCountry cfg)"
      "cacheExpiry t = cacheExpiry s" for n t
    using that
  proof (induction n arbitrary: t)
    case 0
    then show ?case by simp
  next
    case (Suc n)
    have "cacheValid cfg w t" using Suc.prems clock by (simp add: cacheValid_def)
    then have "snd (holidayLookup cfg w t) = t\<lparr>clockReads := Suc (clockReads t)\<rparr>"
      using on by (simp add: holidayLookup_def fetchBankHolidays_hit)
    then show ?case using Suc.IH [of "t\<lparr>clockReads := Suc (clockReads t)\<rparr>"] Suc.prems by simp
  qed
  have "fst (holidayLookup cfg w (afterLookups cfg w n s)) = hs" for n
  proof -
    from inv [of s n] cache have "cacheValid cfg w (afterLookups cfg w n s)"
      "the (cachedHolidays (afterLookups cfg w n s)) = hs"
      using clock by (simp_all add: cacheValid_def)
    then show ?thesis using on by (simp add: holidayLookup_def fetchBankHolidays_hit)
  qed
  then show ?thesis by (simp add: steady_def)
qed

lemma steady_cold:
  assumes on: "enableBankHolidays cfg"
    and miss: "\<not> cacheValid cfg w s"
    and clock: "\<forall>k. nowAt w k < nowAt w (clockReads s) + 24 * 60 * 60 * 1000"
  shows "steady cfg w (fst (fetchBankHolidays cfg w s)) s"
proof -
  define hs where "hs = fst (fetchBankHolidays cfg w s)"
  define s1 where "s1 = snd (fetchBankHolidays cfg w s)"
  from fetchBankHolidays_miss [OF on miss]
  have fields: "cachedHolidays s1 = Some hs" "cachedCountry s1 = Some (bankHolidayCountry cfg)"
    "cacheExpiry s1 = nowAt w (clockReads s) + 24 * 60 * 60 * 1000"
    by (simp_all add: hs_def s1_def)
  have warm: "steady cfg w hs s1"
    using clock by (intro steady_warm [OF on fields(1,2)]) (simp add: fields(3))
  have lookup: "holidayLookup cfg w s = (hs, s1)"
    using on by (simp add: holidayLookup_def hs_def s1_def)
  have "fst (holidayLookup cfg w (afterLookups cfg w n s)) = hs" for n
  proof (cases n)
    case 0
    then show ?thesis by (simp add: lookup)
  next
    case (Suc m)
    then show ?thesis using warm by (simp add: lookup steady_def)
  qed
  then show ?thesis unfolding hs_def [symmetric] by (simp add: steady_def)
qed

subsection \<open>Regular zones\<close>

lemma msPerDay_pos: "0 < msPerDay"
  by (simp add: msPerDay_def)

lemma regularZone_fixed:
  assumes "localTZA w = (\<lambda>t isUTC. c)" and "\<bar>c\<bar> < msPerDay"
  shows "regularZone w"
proof -
  have "LocalTime w (UTC w l) = l" for l by (simp add: LocalTime_def UTC_def assms(1))
  moreover have "localDay w a \<le> localDay w b" if "a \<le> b" for a b
  proof -
    have "a + c \<le> b + c" using that by simp
    then have "(a + c) div msPerDay \<le> (b + c) div msPerDay"
      using msPerDay_pos by (rule zdiv_mono1)
    then show ?thesis by (simp add: localDay_def LocalTime_def assms(1))
  qed
  ultimately show ?thesis using assms(2) by (simp add: regularZone_def assms(1))
qed

text \<open>One step of \<open>addDays\<close> in a regular zone: the next calendar day, at a later instant.\<close>

lemma addDays_one:
  assumes "regularZone w" and "addDays w (Date t) 1 = Date r"
  shows "localDay w r = localDay w t + 1" and "t < r"
proof -
  define l where "l = LocalTime w t + msPerDay"
  have "TimeClip (UTC w l) = Date r"
    using assms(2) by (simp add: addDays_def setLocal_def l_def)
  then have r: "r = UTC w l" by (simp add: TimeClip_def split: if_splits)
  have "LocalTime w (UTC w l) div msPerDay = l div msPerDay"
    using assms(1) by (simp add: regularZone_def)
  moreover have "l div msPerDay = LocalTime w t div msPerDay + 1"
  proof -
    have "(LocalTime w t + 1 * msPerDay) div msPerDay = 1 + LocalTime w t div msPerDay"
      using msPerDay_pos by (intro div_mult_self1) simp
    then show ?thesis by (simp add: l_def)
  qed
  ultimately show day: "localDay w r = localDay w t + 1"
    by (simp add: localDay_def r)
  show "t < r"
  proof (rule ccontr)
    assume "\<not> t < r"
    then have "r \<le> t" by simp
    then have "localDay w r \<le> localDay w t" using assms(1) by (simp add: regularZone_def)
    with day show False by simp
  qed
qed

subsection \<open>Stepping day by day\<close>

lemma addDays_invalid: "addDays w InvalidDate n = InvalidDate"
  by (simp add: addDays_def)

lemma stepDays_invalid: "stepDays w InvalidDate n = InvalidDate"
  by (induction n) (simp_all add: addDays_invalid)

lemma stepDays_back: "stepDays w d (Suc n) = addDays w (stepDays w d n) 1"
  by (induction n arbitrary: d) simp_all

lemma stepDays_add: "stepDays w (stepDays w d m) n = stepDays w d (m + n)"
  by (induction m arbitrary: d) simp_all

lemma stepDays_valid_before:
  assumes "stepDays w d n = Date r" and "j \<le> n"
  shows "\<exists>x. stepDays w d j = Date x"
proof (cases "stepDays w d j")
  case InvalidDate
  from assms(2) obtain i where "n = j + i" using le_Suc_ex by blast
  then have "stepDays w d n = stepDays w (stepDays w d j) i" by (simp add: stepDays_add)
  with InvalidDate assms(1) show ?thesis by (simp add: stepDays_invalid)
next
  case (Date x)
  then show ?thesis by blast
qed

lemma stepDays_day:
  assumes "regularZone w" and "stepDays w (Date t) n = Date r"
  shows "localDay w r = localDay w t + int n" and "t \<le> r" and "1 \<le> n \<Longrightarrow> t < r"
proof -
  have "localDay w r = localDay w t + int n \<and> t \<le> r \<and> (1 \<le> n \<longrightarrow> t < r)"
    using assms(2)
  proof (induction n arbitrary: r)
    case 0
    then show ?case by simp
  next
    case (Suc n)
    from stepDays_valid_before [OF Suc.prems, of n] obtain x where
      x: "stepDays w (Date t) n = Date x" by auto
    from Suc.prems have step: "addDays w (Date x) 1 = Date r"
      by (simp only: stepDays_back x)
    from Suc.IH [OF x] addDays_one [OF assms(1) step] show ?case by simp
  qed
  then show "localDay w r = localDay w t + int n" and "t \<le> r" and "1 \<le> n \<Longrightarrow> t < r"
    by simp_all
qed

lemma workingDayIn_day:
  "localDay w x = localDay w y \<Longrightarrow> workingDayIn w hs (Date x) = workingDayIn w hs (Date y)"
  by (simp add: workingDayIn_def isWeekend_def getDay_def)

subsection \<open>The loop of \<open>getNextWorkingDay\<close>\<close>

lemma getNextWorkingDay_loop_finds:
  assumes "steady cfg w hs s"
    and "workingDayIn w hs (stepDays w c k)"
    and "\<forall>j<k. \<not> workingDayIn w hs (stepDays w c j)"
  shows "\<exists>s'. getNextWorkingDay_loop cfg w c s = Some (Inr (stepDays w c k), s')
           \<and> steady cfg w hs s'"
  using assms
proof (induction k arbitrary: c s)
  case 0
  then obtain t where c: "c = Date t" by (cases c) (simp_all add: workingDayIn_def)
  define s1 where "s1 = snd (isWorkingDay cfg w c s)"
  have "fst (isWorkingDay cfg w c s) = Inr True"
    using isWorkingDay_steady(1) [OF "0.prems"(1), of t] "0.prems"(2) by (simp add: c)
  then have "isWorkingDay cfg w c s = (Inr True, s1)"
    by (simp add: s1_def prod_eq_iff)
  then have "getNextWorkingDay_loop cfg w c s = Some (Inr c, s1)"
    by (subst getNextWorkingDay_loop.simps) simp
  moreover have "steady cfg w hs s1"
    unfolding s1_def c using "0.prems"(1) by (rule isWorkingDay_steady(2))
  ultimately show ?case by simp
next
  case (Suc k)
  from Suc.prems(2) obtain r where "stepDays w c (Suc k) = Date r"
    by (cases "stepDays w c (Suc k)") (simp_all add: workingDayIn_def)
  from stepDays_valid_before [OF this, of 0] obtain t where c: "c = Date t" by auto
  define s1 where "s1 = snd (isWorkingDay cfg w c s)"
  have s1: "steady cfg w hs s1"
    unfolding s1_def c using Suc.prems(1) by (rule isWorkingDay_steady(2))
  from Suc.prems(3) have "\<not> workingDayIn w hs (stepDays w c 0)" by blast
  then have "fst (isWorkingDay cfg w c s) = Inr False"
    using isWorkingDay_steady(1) [OF Suc.prems(1), of t] by (simp add: c)
  then have "isWorkingDay cfg w c s = (Inr False, s1)"
    by (simp add: s1_def prod_eq_iff)
  then have unfold: "getNextWorkingDay_loop cfg w c s
      = getNextWorkingDay_loop cfg w (addDays w c 1) s1"
    by (subst getNextWorkingDay_loop.simps) simp
  have "workingDayIn w hs (stepDays w (addDays w c 1) k)"
    using Suc.prems(2) by simp
  moreover have "\<forall>j<k. \<not> workingDayIn w hs (stepDays w (addDays w c 1) j)"
  proof (intro allI impI)
    fix j assume "j < k"
    then have "Suc j < Suc k" by simp
    with Suc.prems(3) have "\<not> workingDayIn w hs (stepDays w c (Suc j))" by blast
    then show "\<not> workingDayIn w hs (stepDays w (addDays w c 1) j)" by simp
  qed
  ultimately obtain s' where
    "getNextWorkingDay_loop cfg w (addDays w c 1) s1 = Some (Inr (stepDays w (addDays w c 1) k), s')"
    "steady cfg w hs s'"
    using Suc.IH [OF s1] by blast
  then show ?case using unfold by simp
qed

text \<open>
  When some date reached by stepping from \<open>d\<close> is a working day, \<open>getNextWorkingDay\<close>
  returns the first such date.
\<close>

lemma getNextWorkingDay_steady:
  assumes "steady cfg w hs s" and "1 \<le> n" and "workingDayIn w hs (stepDays w d n)"
  shows "\<exists>k s'. getNextWorkingDay cfg w d s = Some (Inr (stepDays w d k), s') \<and> 1 \<le> k \<and> k \<le> n
      \<and> steady cfg w hs s' \<and> workingDayIn w hs (stepDays w d k)
      \<and> (\<forall>j. 1 \<le> j \<and> j < k \<longrightarrow> \<not> workingDayIn w hs (stepDays w d j))"
proof -
  define P where "P k = workingDayIn w hs (stepDays w (addDays w d 1) k)" for k
  from assms(2) obtain m where n: "n = Suc m" by (cases n) auto
  have "P m" using assms(3) by (simp add: P_def n)
  then obtain k where k: "P k" "\<forall>j<k. \<not> P j" "k \<le> m"
    using exists_least_iff [of P] by (metis not_le_imp_less)
  from getNextWorkingDay_loop_finds [OF assms(1), of "addDays w d 1" k] k obtain s' where
    s': "getNextWorkingDay_loop cfg w (addDays w d 1) s
          = Some (Inr (stepDays w (addDays w d 1) k), s')"
      "steady cfg w hs s'"
    unfolding P_def by blast
  have least: "\<not> workingDayIn w hs (stepDays w d j)" if "1 \<le> j" "j < Suc k" for j
  proof -
    from that obtain i where "j = Suc i" "i < k" by (cases j) auto
    with k(2) show ?thesis unfolding P_def by simp
  qed
  show ?thesis
    using s' k(1) k(3) least unfolding P_def getNextWorkingDay_def n
    by (intro exI [of _ "Suc k"] exI [of _ s']) auto
qed

text \<open>Europe/London in 2025 is a regular zone.\<close>

lemma regularZone_london: "regularZone londonWorld"
proof -
  define S :: int where "S = 1743296400000"
  define E :: int where "E = 1761440400000"
  define H :: int where "H = 3600000"
  have tzaU: "localTZA londonWorld t True = (if S \<le> t \<and> t < E then H else 0)" for t
    by (simp add: londonWorld_def S_def E_def H_def)
  have tzaL: "localTZA londonWorld l False = (if S + H \<le> l \<and> l < E + H then H else 0)" for l
    by (simp add: londonWorld_def S_def E_def H_def)
  have H: "0 < H" "H < msPerDay" by (simp_all add: H_def msPerDay_def)
  have SE: "S + H < E" by (simp add: S_def E_def H_def)
  have dayS: "(S + 2 * H - 1) div msPerDay = S div msPerDay"
    by (simp add: S_def H_def msPerDay_def)
  have dayE: "(E + H - 1) div msPerDay = E div msPerDay"
    by (simp add: E_def H_def msPerDay_def)
  have mono: "a div msPerDay \<le> b div msPerDay" if "a \<le> b" for a b :: int
    using that msPerDay_pos by (rule zdiv_mono1)
  have there: "LocalTime londonWorld (UTC londonWorld l) div msPerDay = l div msPerDay" for l
  proof -
    consider "S + H \<le> l \<and> l < E + H" | "l < S" | "S \<le> l \<and> l < S + H" | "E + H \<le> l"
      by linarith
    then show ?thesis
    proof cases
      case 1
      then have u: "UTC londonWorld l = l - H" by (simp add: UTC_def tzaL)
      have "localTZA londonWorld (l - H) True = H" using 1 by (simp add: tzaU)
      then show ?thesis by (simp add: LocalTime_def u)
    next
      case 2
      then have u: "UTC londonWorld l = l" using H by (simp add: UTC_def tzaL)
      have "localTZA londonWorld l True = 0" using 2 by (simp add: tzaU)
      then show ?thesis by (simp add: LocalTime_def u)
    next
      case 3
      then have u: "UTC londonWorld l = l" by (simp add: UTC_def tzaL)
      have "localTZA londonWorld l True = H" using 3 SE by (simp add: tzaU)
      then have lt: "LocalTime londonWorld (UTC londonWorld l) = l + H"
        by (simp add: LocalTime_def u)
      have "S div msPerDay \<le> l div msPerDay" using 3 by (intro mono) simp
      moreover have "l div msPerDay \<le> (l + H) div msPerDay" using H by (intro mono) simp
      moreover have "(l + H) div msPerDay \<le> (S + 2 * H - 1) div msPerDay"
        using 3 by (intro mono) simp
      ultimately show ?thesis using dayS by (simp add: lt)
    next
      case 4
      then have u: "UTC londonWorld l = l" by (simp add: UTC_def tzaL)
      have "localTZA londonWorld l True = 0" using 4 H by (simp add: tzaU)
      then show ?thesis by (simp add: LocalTime_def u)
    qed
  qed
  have forth: "localDay londonWorld a \<le> localDay londonWorld b" if "a \<le> b" for a b
  proof (cases "S \<le> a \<and> a < E \<and> \<not> (S \<le> b \<and> b < E)")
    case True
    then have "E \<le> b" using that by linarith
    have ta: "localTZA londonWorld a True = H" using True by (auto simp: tzaU)
    have tb: "localTZA londonWorld b True = 0" using True by (auto simp: tzaU)
    have "(a + H) div msPerDay \<le> (E + H - 1) div msPerDay" using True by (intro mono) simp
    moreover have "E div msPerDay \<le> b div msPerDay" using \<open>E \<le> b\<close> by (rule mono)
    ultimately have "(a + H) div msPerDay \<le> b div msPerDay" using dayE by simp
    then show ?thesis by (simp add: localDay_def LocalTime_def ta tb)
  next
    case False
    then have "a + localTZA londonWorld a True \<le> b + localTZA londonWorld b True"
      using that H by (auto simp: tzaU)
    then show ?thesis unfolding localDay_def LocalTime_def by (rule mono)
  qed
  have small: "\<bar>localTZA londonWorld t u\<bar> < msPerDay" for t u
    using H by (cases u) (simp_all add: tzaU tzaL msPerDay_pos)
  show ?thesis using there forth small by (simp add: regularZone_def)
qed

section \<open>The calendar day of a due date\<close>








section \<open>The next working day and the due date\<close>

text \<open>
  At the last instant a \<open>Date\<close> can hold, \<open>addDays\<close> leaves the range of time values:
  with holidays disabled \<open>getNextWorkingDay\<close> returns Invalid Date, which passes
  \<open>isWorkingDay\<close> and is not greater than the date given; with holidays enabled the
  holiday lookup formats the Invalid Date and the call ends in a \<open>RangeError\<close>.
\<close>

theorem getNextWorkingDay_end_of_range:
  "getNextWorkingDay weekendsOnly utcWorld (Date 8640000000000000) initialState
     = Some (Inr InvalidDate, initialState)
   \<and> \<not> dateGreater InvalidDate (Date 8640000000000000)
   \<and> fst (isWorkingDay weekendsOnly utcWorld InvalidDate initialState) = Inr True
   \<and> map_option fst (getNextWorkingDay ukConfig christmasWorld (Date 8640000000000000)
        initialState) = Some (Inl RangeError)"
  by code_simp

text \<open>
  Claim C4, as amended. In a process whose zone is regular and where every holiday
  lookup sees the same holiday set: for every valid date \<open>d\<close> from which stepping day by
  day reaches a working day inside the range of time values, \<open>getNextWorkingDay\<close>
  returns the first such day, a valid date \<open>r\<close> a whole number \<open>k \<ge> 1\<close> of calendar
  days after \<open>d\<close>. It is strictly greater than \<open>d\<close>, it satisfies \<open>isWorkingDay\<close>, and it
  is the least such date: every date on a calendar day strictly between that of \<open>d\<close>
  and that of \<open>r\<close> fails \<open>isWorkingDay\<close>.
\<close>

theorem getNextWorkingDay_least:
  assumes zone: "regularZone w"
    and lookups: "steady cfg w hs s"
    and "1 \<le> n"
    and "workingDayIn w hs (stepDays w (Date t) n)"
  shows "\<exists>k r s'. getNextWorkingDay cfg w (Date t) s = Some (Inr (Date r), s')
      \<and> 1 \<le> k \<and> k \<le> n \<and> stepDays w (Date t) k = Date r
      \<and> dateGreater (Date r) (Date t) \<and> localDay w r = localDay w t + int k
      \<and> fst (isWorkingDay cfg w (Date r) s') = Inr True
      \<and> (\<forall>x. localDay w t < localDay w x \<and> localDay w x < localDay w r
            \<longrightarrow> fst (isWorkingDay cfg w (Date x) s') = Inr False)"
proof -
  from getNextWorkingDay_steady [OF assms(2,3,4)] obtain k s' where
    run: "getNextWorkingDay cfg w (Date t) s = Some (Inr (stepDays w (Date t) k), s')"
    and k: "1 \<le> k" "k \<le> n"
    and after: "steady cfg w hs s'"
    and found: "workingDayIn w hs (stepDays w (Date t) k)"
    and first: "\<forall>j. 1 \<le> j \<and> j < k \<longrightarrow> \<not> workingDayIn w hs (stepDays w (Date t) j)"
    by blast
  from found obtain r where r: "stepDays w (Date t) k = Date r"
    by (cases "stepDays w (Date t) k") (simp_all add: workingDayIn_def)
  have day: "localDay w r = localDay w t + int k" and later: "t < r"
    using stepDays_day [OF zone r] k(1) by simp_all
  have test: "fst (isWorkingDay cfg w (Date x) s') = Inr (workingDayIn w hs (Date x))" for x
    using after by (rule isWorkingDay_steady(1))
  have between: "\<not> workingDayIn w hs (Date x)"
    if "localDay w t < localDay w x" "localDay w x < localDay w r" for x
  proof -
    define j where "j = nat (localDay w x - localDay w t)"
    have j: "1 \<le> j" "j < k" "localDay w x = localDay w t + int j"
      using that day by (simp_all add: j_def)
    from stepDays_valid_before [OF r, of j] j(2) obtain y where
      y: "stepDays w (Date t) j = Date y" by auto
    have "localDay w y = localDay w x" using stepDays_day(1) [OF zone y] j(3) by simp
    moreover have "\<not> workingDayIn w hs (Date y)" using first j(1,2) y by auto
    ultimately show ?thesis using workingDayIn_day [of w y x hs] by simp
  qed
  show ?thesis
    using run k r day later found between
    by (intro exI [of _ k] exI [of _ r] exI [of _ s']) (simp add: test dateGreater_def)
qed

theorem getNextWorkingDay_least_witness:
  "steady ukConfig christmasWorld [''2025-12-25'', ''2025-12-26''] initialState
   \<and> getNextWorkingDay ukConfig christmasWorld (Date 1766570400000) initialState
        = Some (Inr (Date 1767002400000), christmasCache\<lparr>clockReads := 3\<rparr>)
   \<and> format_yyyy_MM_dd christmasWorld (Date 1766570400000) = Inr ''2025-12-24''
   \<and> format_yyyy_MM_dd christmasWorld (Date 1767002400000) = Inr ''2025-12-29''
   \<and> dateGreater (Date 1767002400000) (Date 1766570400000)
   \<and> fst (isWorkingDay ukConfig christmasWorld (Date 1767002400000)
         (christmasCache\<lparr>clockReads := 3\<rparr>)) = Inr True
   \<and> steady weekendsOnly londonWorld [] initialState
   \<and> getNextWorkingDay weekendsOnly londonWorld (Date 1761307200000) initialState
        = Some (Inr (Date 1761570000000), initialState)
   \<and> (\<exists>k r s'. getNextWorkingDay weekendsOnly londonWorld (Date 1761307200000) initialState
          = Some (Inr (Date r), s')
        \<and> stepDays londonWorld (Date 1761307200000) k = Date r
        \<and> dateGreater (Date r) (Date 1761307200000)
        \<and> localDay londonWorld r = localDay londonWorld 1761307200000 + int k
        \<and> fst (isWorkingDay weekendsOnly londonWorld (Date r) s') = Inr True)"
proof -
  have fetched: "fst (fetchBankHolidays ukConfig christmasWorld initialState)
      = [''2025-12-25'', ''2025-12-26'']"
    by code_simp
  have "steady ukConfig christmasWorld
      (fst (fetchBankHolidays ukConfig christmasWorld initialState)) initialState"
    by (rule steady_cold)
       (simp_all add: ukConfig_def cacheValid_def initialState_def christmasWorld_def)
  then have h: "steady ukConfig christmasWorld [''2025-12-25'', ''2025-12-26''] initialState"
    by (simp only: fetched)
  have z: "regularZone christmasWorld"
    by (rule regularZone_fixed [of _ 0]) (simp_all add: christmasWorld_def msPerDay_def)
  have reach: "workingDayIn christmasWorld [''2025-12-25'', ''2025-12-26'']
      (stepDays christmasWorld (Date 1766570400000) 5)"
    by code_simp
  have run: "getNextWorkingDay ukConfig christmasWorld (Date 1766570400000) initialState
        = Some (Inr (Date 1767002400000), christmasCache\<lparr>clockReads := 3\<rparr>)"
    by code_simp
  have f1: "format_yyyy_MM_dd christmasWorld (Date 1766570400000) = Inr ''2025-12-24''"
    by code_simp
  have f2: "format_yyyy_MM_dd christmasWorld (Date 1767002400000) = Inr ''2025-12-29''"
    by code_simp
  have h': "steady weekendsOnly londonWorld [] initialState"
    by (rule steady_disabled) (simp add: weekendsOnly_def)
  have reach': "workingDayIn londonWorld [] (stepDays londonWorld (Date 1761307200000) 3)"
    by code_simp
  have run': "getNextWorkingDay weekendsOnly londonWorld (Date 1761307200000) initialState
        = Some (Inr (Date 1761570000000), initialState)"
    by code_simp
  have three: "(1::nat) \<le> 3" and five: "(1::nat) \<le> 5" by simp_all
  from getNextWorkingDay_least [OF z h five reach] obtain k r s' where
    "getNextWorkingDay ukConfig christmasWorld (Date 1766570400000) initialState
       = Some (Inr (Date r), s')"
    "dateGreater (Date r) (Date 1766570400000)"
    "fst (isWorkingDay ukConfig christmasWorld (Date r) s') = Inr True"
    by blast
  then have c: "dateGreater (Date 1767002400000) (Date 1766570400000)
      \<and> fst (isWorkingDay ukConfig christmasWorld (Date 1767002400000)
            (christmasCache\<lparr>clockReads := 3\<rparr>)) = Inr True"
    by (simp add: run)
  from getNextWorkingDay_least [OF regularZone_london h' three reach'] obtain k r s' where
    "getNextWorkingDay weekendsOnly londonWorld (Date 1761307200000) initialState
       = Some (Inr (Date r), s')"
    "stepDays londonWorld (Date 1761307200000) k = Date r"
    "dateGreater (Date r) (Date 1761307200000)"
    "localDay londonWorld r = localDay londonWorld 1761307200000 + int k"
    "fst (isWorkingDay weekendsOnly londonWorld (Date r) s') = Inr True"
    by blast
  then have l: "\<exists>k r s'. getNextWorkingDay weekendsOnly londonWorld (Date 1761307200000)
          initialState = Some (Inr (Date r), s')
        \<and> stepDays londonWorld (Date 1761307200000) k = Date r
        \<and> dateGreater (Date r) (Date 1761307200000)
        \<and> localDay londonWorld r = localDay londonWorld 1761307200000 + int k
        \<and> fst (isWorkingDay weekendsOnly londonWorld (Date r) s') = Inr True"
    by blast
  show ?thesis using h run f1 f2 c h' run' l by (intro conjI) simp_all
qed



section \<open>Stepping by working days\<close>

lemma calculateWorkingDays_loop_abs_imp:
  assumes "calculateWorkingDays_loop cfg w dir n current c s = Some r"
  shows "\<forall>m. \<bar>m\<bar> = \<bar>n\<bar> \<longrightarrow> calculateWorkingDays_loop cfg w dir m current c s = Some r"
proof (rule calculateWorkingDays_loop.raw_induct
    [where P = "\<lambda>cfg w dir n current c s r.
       \<forall>m. \<bar>m\<bar> = \<bar>n\<bar> \<longrightarrow> calculateWorkingDays_loop cfg w dir m current c s = Some r",
     OF _ assms])
  fix f cfg w dir n current c s r
  assume IH: "\<And>cfg w dir n current c s r. f cfg w dir n current c s = Some r \<Longrightarrow>
     \<forall>m. \<bar>m\<bar> = \<bar>n\<bar> \<longrightarrow> calculateWorkingDays_loop cfg w dir m current c s = Some r"
  assume body: "(if c < \<bar>n\<bar>
      then let current' =
                 case dir of Forward \<Rightarrow> addDays w current 1 | Backward \<Rightarrow> subDays w current 1
           in case isWorkingDay cfg w current' s of
                (Inl error, s') \<Rightarrow> Some (Inl error, s')
              | (Inr working, s') \<Rightarrow>
                  f cfg w dir n current' (if working then c + 1 else c) s'
      else Some (Inr current, s)) = Some r"
  show "\<forall>m. \<bar>m\<bar> = \<bar>n\<bar> \<longrightarrow> calculateWorkingDays_loop cfg w dir m current c s = Some r"
  proof (intro allI impI)
    fix m :: int assume m: "\<bar>m\<bar> = \<bar>n\<bar>"
    show "calculateWorkingDays_loop cfg w dir m current c s = Some r"
    proof (cases "c < \<bar>n\<bar>")
      case True
      define current' where
        "current' = (case dir of Forward \<Rightarrow> addDays w current 1 | Backward \<Rightarrow> subDays w current 1)"
      have less: "c < \<bar>m\<bar>" using True m by simp
      show ?thesis
      proof (cases "isWorkingDay cfg w current' s")
        case (Pair res s')
        show ?thesis
        proof (cases res)
          case (Inl error)
          from body True Pair Inl have "r = (Inl error, s')"
            by (simp add: Let_def current'_def [symmetric])
          then show ?thesis
            using less Pair Inl
            by (subst calculateWorkingDays_loop.simps)
               (simp add: Let_def current'_def [symmetric])
        next
          case (Inr working)
          define c' where "c' = (if working then c + 1 else c)"
          from body True Pair Inr have "f cfg w dir n current' c' s' = Some r"
            by (simp add: Let_def current'_def [symmetric] c'_def)
          from IH [OF this] m
          have "calculateWorkingDays_loop cfg w dir m current' c' s' = Some r" by blast
          then show ?thesis
            using less Pair Inr
            by (subst calculateWorkingDays_loop.simps)
               (simp add: Let_def current'_def [symmetric] c'_def)
        qed
      qed
    next
      case False
      then have "\<not> c < \<bar>m\<bar>" using m by simp
      with body False show ?thesis
        by (subst calculateWorkingDays_loop.simps) simp
    qed
  qed
qed

lemma calculateWorkingDays_loop_abs:
  "calculateWorkingDays_loop cfg w dir n current c s
     = calculateWorkingDays_loop cfg w dir \<bar>n\<bar> current c s"
proof (cases "calculateWorkingDays_loop cfg w dir n current c s")
  case (Some r)
  then show ?thesis using calculateWorkingDays_loop_abs_imp [OF Some] by simp
next
  case None
  show ?thesis
  proof (cases "calculateWorkingDays_loop cfg w dir \<bar>n\<bar> current c s")
    case (Some r)
    from calculateWorkingDays_loop_abs_imp [OF Some] have
      "calculateWorkingDays_loop cfg w dir n current c s = Some r" by simp
    with None show ?thesis by simp
  next
    case None': None
    with None show ?thesis by simp
  qed
qed

text \<open>
  Claim C10. \<open>calculateWorkingDays\<close> depends on the number of days only through its
  absolute value: for every start date, direction, integer \<open>n\<close> and state, the call
  with \<open>n\<close> and the call with \<open>|n|\<close> are the same computation (the same date or
  exception and the same state, or both without end); and with \<open>n = 0\<close> it returns the
  start date unchanged.
\<close>

theorem calculateWorkingDays_abs:
  "calculateWorkingDays cfg w startDate numDays dir s
     = calculateWorkingDays cfg w startDate \<bar>numDays\<bar> dir s
   \<and> calculateWorkingDays cfg w startDate 0 dir s = Some (Inr startDate, s)"
proof
  show "calculateWorkingDays cfg w startDate numDays dir s
     = calculateWorkingDays cfg w startDate \<bar>numDays\<bar> dir s"
    unfolding calculateWorkingDays_def by (rule calculateWorkingDays_loop_abs)
  show "calculateWorkingDays cfg w startDate 0 dir s = Some (Inr startDate, s)"
    unfolding calculateWorkingDays_def by (subst calculateWorkingDays_loop.simps) simp
qed

section \<open>Counting working days\<close>

lemma getWorkingDaysBetween_reversed:
  "dateGreater startDate endDate
     \<Longrightarrow> getWorkingDaysBetween cfg w startDate endDate s = Some (Inr 0, s)"
  by (simp add: getWorkingDaysBetween_def)

text \<open>
  A range from a valid date to itself, in a regular zone: the loop tests the date and
  stops, since the next day is a later instant or no date at all.
\<close>

lemma getWorkingDaysBetween_same_day:
  assumes "regularZone w" and "steady cfg w hs s"
  shows "map_option fst (getWorkingDaysBetween cfg w (Date t) (Date t) s)
     = Some (Inr (if workingDayIn w hs (Date t) then 1 else 0))"
proof -
  define s' where "s' = snd (isWorkingDay cfg w (Date t) s)"
  have test: "isWorkingDay cfg w (Date t) s = (Inr (workingDayIn w hs (Date t)), s')"
    using isWorkingDay_steady(1) [OF assms(2), of t] by (simp add: s'_def prod_eq_iff)
  have stop: "\<not> dateLessEq (addDays w (Date t) 1) (Date t)"
  proof (cases "addDays w (Date t) 1")
    case InvalidDate
    then show ?thesis by (simp add: dateLessEq_def)
  next
    case (Date r)
    from addDays_one(2) [OF assms(1) Date] show ?thesis by (simp add: Date dateLessEq_def)
  qed
  have "getWorkingDaysBetween_loop cfg w (Date t) (addDays w (Date t) 1) c s' = Some (Inr c, s')"
    for c
    using stop by (subst getWorkingDaysBetween_loop.simps) simp
  then have "getWorkingDaysBetween_loop cfg w (Date t) (Date t) 0 s
      = Some (Inr (if workingDayIn w hs (Date t) then 1 else 0), s')"
    by (subst getWorkingDaysBetween_loop.simps) (simp add: test dateLessEq_def)
  then show ?thesis by (simp add: getWorkingDaysBetween_def dateGreater_def)
qed

text \<open>
  Claim C7, evaluated. The dates \<open>parseDate\<close> makes of 2025-10-24 and 2025-10-27 in a
  process running in UTC are Friday 24 October at 01:00 (summer time) and Monday
  27 October at 00:00. Both are working days and the range holds two working days,
  yet \<open>getWorkingDaysBetween\<close> returns 1: the loop steps from the start by whole days,
  keeping the time of day, and leaves the end day out when the time of day of the end
  is before that of the start.
\<close>

theorem getWorkingDaysBetween_end_day_missed:
  "utcToZonedTime autumnWorld (Date 1761264000000) UK_TIMEZONE = Date 1761267600000
   \<and> utcToZonedTime autumnWorld (Date 1761523200000) UK_TIMEZONE = Date 1761523200000
   \<and> format_yyyy_MM_dd autumnWorld (Date 1761267600000) = Inr ''2025-10-24''
   \<and> format_yyyy_MM_dd autumnWorld (Date 1761523200000) = Inr ''2025-10-27''
   \<and> fst (isWorkingDay weekendsOnly autumnWorld (Date 1761267600000) initialState) = Inr True
   \<and> fst (isWorkingDay weekendsOnly autumnWorld (Date 1761523200000) initialState) = Inr True
   \<and> getWorkingDaysBetween weekendsOnly autumnWorld (Date 1761267600000) (Date 1761523200000)
        initialState = Some (Inr 1, initialState)"
  by code_simp

section \<open>Where the code and its configuration part ways\<close>

text \<open>
  Claim C1, evaluated. With \<open>ASANA_DUE_HOUR=9\<close> in the environment the configured due
  hour is 9, and \<open>getAsanaDueDate\<close> applied to Monday 6 January 2025 returns Tuesday
  7 January 2025 at 16:00:00.000 in the zone of the process: the hour is the constant
  of the module, not the configured one.
\<close>

theorem getAsanaDueDate_configured_hour_unused:
  "asanaDueHour weekendsOnly = 9
   \<and> getAsanaDueDate weekendsOnly utcWorld (Some (Date 1736121600000)) initialState
        = Some (Inr (Date 1736265600000), initialState)
   \<and> format_yyyy_MM_dd utcWorld (Date 1736265600000) = Inr ''2025-01-07''
   \<and> getHours utcWorld (Date 1736265600000) = Some 16
   \<and> zonedHours utcWorld (timezone weekendsOnly) 1736265600000 = 16
   \<and> getMinutes utcWorld (Date 1736265600000) = Some 0
   \<and> getSeconds utcWorld (Date 1736265600000) = Some 0
   \<and> getMilliseconds utcWorld (Date 1736265600000) = Some 0"
  by code_simp

text \<open>
  Claim C3, evaluated. The configured zone is Pacific/Auckland and the process runs in
  UTC. Friday 3 January 2025, 20:00 UTC, is a Saturday in Auckland, and \<open>isWorkingDay\<close>
  takes it for a working day: the weekend test reads the day of the week in the zone of
  the process. Wednesday 5 February 2025, 20:00 UTC, is 6 February in Auckland, Waitangi
  Day, which the cache holds; \<open>isUKBankHoliday\<close> looks up 2025-02-05, the date in the
  zone of the process, and answers no.
\<close>

theorem isWorkingDay_configured_zone_unused:
  "timezone nzConfig = ''Pacific/Auckland''
   \<and> getDay utcWorld (Date 1735934400000) = Some 5
   \<and> weekdayOfDay (zonedDay utcWorld (timezone nzConfig) 1735934400000) = 6
   \<and> fst (isWorkingDay nzConfig utcWorld (Date 1735934400000) nzCache) = Inr True
   \<and> format_yyyy_MM_dd utcWorld (Date 1738785600000) = Inr ''2025-02-05''
   \<and> formatInTimeZone_yyyy_MM_dd utcWorld (Date 1738785600000) (timezone nzConfig)
        = Inr ''2025-02-06''
   \<and> fst (fetchBankHolidays nzConfig utcWorld nzCache) = [''2025-02-06'']
   \<and> fst (isUKBankHoliday nzConfig utcWorld (Date 1738785600000) nzCache) = Inr False
   \<and> fst (isWorkingDay nzConfig utcWorld (Date 1738785600000) nzCache) = Inr True"
  by code_simp

end
